theory Spec2Isabelle
  imports Complex_Main
begin

section \<open>Data model\<close>

text \<open>
  The storefront consists of a browser script (cart, addresses, checkout, session) and an
  Express server over a document store. A finite JavaScript Number stored in a document
  or sent in a request is a rational (\<^typ>\<open>rat\<close>), the exact value of the double. The
  results of the cart-total arithmetic are values of \<open>jsnum\<close> below, computed with the
  rounding of IEEE 754 binary64. Strings are \<^typ>\<open>string\<close>; a character is a code unit
  from U+0000 to U+00FF. A Mongoose document is a record; each request works on a document
  freshly loaded from the store, so values (not references) are the right model.
\<close>

type_synonym number = rat

text \<open>The \<open>cart\<close> sub-document of \<open>userSchema\<close>: \<open>{name, price, quantity, image}\<close>.\<close>

record cart_item =
  name :: string
  price :: number
  quantity :: number
  image :: string

section \<open>JavaScript arithmetic\<close>

text \<open>
  A Number as arithmetic yields it: a finite double (by its exact value), an infinity or
  \<open>NaN\<close>. The two zeros are not told apart (no operation modelled here depends on the
  sign of a zero).
\<close>

datatype jsnum = Finite rat | Infinity | MinusInfinity | NaN

text \<open>The number of binary digits of a positive integer, and powers of two.\<close>

function bitlen :: "int \<Rightarrow> nat" where
  "bitlen n = (if n \<le> 0 then 0 else Suc (bitlen (n div 2)))"
  by pat_completeness auto
termination
  by (relation "measure nat") auto

declare bitlen.simps [simp del]

definition pow2 :: "int \<Rightarrow> rat" where
  "pow2 e = (if 0 \<le> e then 2 ^ nat e else 1 / 2 ^ nat (- e))"

text \<open>
  For a positive rational \<open>a\<close>, the exponent \<open>e\<close> with \<open>2^e \<le> a < 2^(e+1)\<close>: from the
  digits of \<open>\<lfloor>a\<rfloor>\<close> when \<open>a \<ge> 1\<close>, and otherwise from the least \<open>k\<close> with
  \<open>1 / a \<le> 2^k\<close>.
\<close>

definition ilog2 :: "rat \<Rightarrow> int" where
  "ilog2 a =
     (if 1 \<le> a then int (bitlen \<lfloor>a\<rfloor>) - 1
      else - int (bitlen (\<lceil>1 / a\<rceil> - 1)))"

text \<open>Rounding to the nearest integer, a tie going to the even one.\<close>

definition round_half_even :: "rat \<Rightarrow> int" where
  "round_half_even m =
     (let f = \<lfloor>m\<rfloor>; d = m - of_int f
      in if d < 1 / 2 then f
         else if 1 / 2 < d then f + 1
         else if even f then f else f + 1)"

text \<open>
  The double nearest to a rational, as every arithmetic operation and the reading of a
  decimal literal round (round to nearest, ties to even): 53 significant binary digits,
  the least exponent -1022 (below it the spacing stays \<open>2^-1074\<close>), and an infinity
  when the rounded magnitude reaches \<open>2^1024\<close>.
\<close>

definition to_double :: "rat \<Rightarrow> jsnum" where
  "to_double r =
     (if r = 0 then Finite 0
      else
        let a = \<bar>r\<bar>;
            e = max (ilog2 a) (- 1022);
            q = pow2 (e - 52);
            v = of_int (round_half_even (a / q)) * q
        in if pow2 1024 \<le> v then (if r < 0 then MinusInfinity else Infinity)
           else Finite (if r < 0 then - v else v))"

text \<open>
  The finite double that a decimal literal is read as (used to write example data; a
  literal beyond the range of the doubles, which reads as an infinity, is not a
  \<open>number\<close>).
\<close>

definition dbl :: "rat \<Rightarrow> number" where
  "dbl r = (case to_double r of Finite v \<Rightarrow> v | _ \<Rightarrow> 0)"

text \<open>\<open>x + y\<close>, \<open>x * y\<close> and \<open>x > c\<close> on Numbers.\<close>

fun js_add :: "jsnum \<Rightarrow> jsnum \<Rightarrow> jsnum" where
  "js_add (Finite a) (Finite b) = to_double (a + b)"
| "js_add NaN y = NaN"
| "js_add x NaN = NaN"
| "js_add Infinity MinusInfinity = NaN"
| "js_add MinusInfinity Infinity = NaN"
| "js_add Infinity y = Infinity"
| "js_add x Infinity = Infinity"
| "js_add MinusInfinity y = MinusInfinity"
| "js_add x MinusInfinity = MinusInfinity"

definition js_negative :: "jsnum \<Rightarrow> bool" where
  "js_negative x = (case x of Finite a \<Rightarrow> a < 0 | MinusInfinity \<Rightarrow> True | _ \<Rightarrow> False)"

fun js_mul :: "jsnum \<Rightarrow> jsnum \<Rightarrow> jsnum" where
  "js_mul (Finite a) (Finite b) = to_double (a * b)"
| "js_mul NaN y = NaN"
| "js_mul x NaN = NaN"
| "js_mul x y =
     (if x = Finite 0 \<or> y = Finite 0 then NaN
      else if js_negative x = js_negative y then Infinity else MinusInfinity)"

definition js_gt :: "jsnum \<Rightarrow> rat \<Rightarrow> bool" where
  "js_gt x c = (case x of Finite a \<Rightarrow> c < a | Infinity \<Rightarrow> True | _ \<Rightarrow> False)"

section \<open>Cart totals\<close>

text \<open>The object returned by \<open>calculateCartTotal\<close>.\<close>

record totals =
  subtotal :: jsnum
  deliveryFee :: jsnum
  tax :: jsnum
  total :: jsnum

text \<open>
  The decimal that \<open>x.toFixed(2)\<close> prints for a finite \<open>x\<close> below \<open>10^21\<close> in
  magnitude: \<open>Number.prototype.toFixed\<close> negates a negative argument and remembers the
  sign, then picks the integer \<open>n\<close> with \<open>n / 100\<close> closest to the exact value of the
  argument, the larger one on a tie.
\<close>

definition toFixed2 :: "rat \<Rightarrow> rat" where
  "toFixed2 x =
     (if x < 0 then - (of_int \<lfloor>(- x) * 100 + 1 / 2\<rfloor> / 100)
      else of_int \<lfloor>x * 100 + 1 / 2\<rfloor> / 100)"

text \<open>
  \<open>parseFloat(x.toFixed(2))\<close>: the printed decimal is read back as the nearest double.
  A magnitude of at least \<open>10^21\<close> is printed as \<open>String(x)\<close>, and an infinity or
  \<open>NaN\<close> by its name; these are read back unchanged.
\<close>

definition parseFloat_toFixed2 :: "jsnum \<Rightarrow> jsnum" where
  "parseFloat_toFixed2 x =
     (case x of
        Finite r \<Rightarrow> if 10 ^ 21 \<le> \<bar>r\<bar> then Finite r else to_double (toFixed2 r)
      | _ \<Rightarrow> x)"

text \<open>
  The client function \<open>calculateCartTotal()\<close> works on the in-memory cart: \<open>reduce\<close> is a
  left fold from 0, \<open>0.05\<close> is the double nearest to 1/20, and the four values are
  returned as computed, without rounding to 2 decimals (the cart page formats them with
  \<open>toFixed(2)\<close> when it displays them).
\<close>

definition client_calculateCartTotal :: "cart_item list \<Rightarrow> totals" where
  "client_calculateCartTotal cart =
     (let subtotal' =
            foldl (\<lambda>sum item. js_add sum (js_mul (Finite (price item)) (Finite (quantity item))))
              (Finite 0) cart;
          deliveryFee' = (if js_gt subtotal' 500 then Finite 0 else Finite 50);
          tax' = js_mul subtotal' (to_double (5 / 100));
          total' = js_add (js_add subtotal' deliveryFee') tax'
      in \<lparr>subtotal = subtotal', deliveryFee = deliveryFee', tax = tax', total = total'\<rparr>)"

text \<open>
  The server helper \<open>calculateCartTotal(cartItems)\<close> computes the same four values (the
  fee test runs on the unrounded subtotal) and returns each of them through
  \<open>parseFloat(_.toFixed(2))\<close>.
\<close>

definition calculateCartTotal :: "cart_item list \<Rightarrow> totals" where
  "calculateCartTotal cartItems =
     (let subtotal' =
            foldl (\<lambda>sum item. js_add sum (js_mul (Finite (price item)) (Finite (quantity item))))
              (Finite 0) cartItems;
          deliveryFee' = (if js_gt subtotal' 500 then Finite 0 else Finite 50);
          tax' = js_mul subtotal' (to_double (5 / 100));
          total' = js_add (js_add subtotal' deliveryFee') tax'
      in \<lparr>subtotal = parseFloat_toFixed2 subtotal',
          deliveryFee = parseFloat_toFixed2 deliveryFee',
          tax = parseFloat_toFixed2 tax',
          total = parseFloat_toFixed2 total'\<rparr>)"








section \<open>Strings\<close>

text \<open>
  The white space of \<open>String.prototype.trim\<close> and of the regular expression class
  \<open>\s\<close>. Among the code units up to U+00FF these are the tab, the line feed, the
  vertical tab, the form feed, the carriage return, the space and the no-break space
  U+00A0 (the others, U+1680, U+2000 to U+200A, U+2028, U+2029, U+202F, U+205F, U+3000
  and U+FEFF, lie beyond the characters of \<^typ>\<open>string\<close>). \<open>[0-9]\<close> is an ASCII digit.
\<close>

definition is_space :: "char \<Rightarrow> bool" where
  "is_space c = (c = CHR 0x09 \<or> c = CHR 0x0A \<or> c = CHR 0x0B \<or> c = CHR 0x0C
                 \<or> c = CHR 0x0D \<or> c = CHR 0x20 \<or> c = CHR 0xA0)"

definition is_digit :: "char \<Rightarrow> bool" where
  "is_digit c = ((48::nat) \<le> of_char c \<and> of_char c \<le> (57::nat))"

definition trim :: "string \<Rightarrow> string" where
  "trim s = rev (dropWhile is_space (rev (dropWhile is_space s)))"

text \<open>\<open>s.replace(/\s/g, '')\<close>: every white space character is removed.\<close>

definition strip_spaces :: "string \<Rightarrow> string" where
  "strip_spaces s = filter (\<lambda>c. \<not> is_space c) s"

text \<open>\<open>/^[0-9]{n}$/.test(s)\<close>: the whole string is exactly \<open>n\<close> digits.\<close>

definition digits_exactly :: "nat \<Rightarrow> string \<Rightarrow> bool" where
  "digits_exactly n s = (length s = n \<and> list_all is_digit s)"

text \<open>\<open>s.split(' ')\<close>: the pieces between single spaces (never an empty list).\<close>

fun split_space :: "string \<Rightarrow> string list" where
  "split_space [] = [[]]"
| "split_space (c # cs) =
     (if c = CHR '' '' then [] # split_space cs
      else (case split_space cs of
              [] \<Rightarrow> [[c]]
            | w # ws \<Rightarrow> (c # w) # ws))"

text \<open>\<open>xs[i]\<close> on a JavaScript array: \<open>undefined\<close> (here \<open>None\<close>) out of range.\<close>

fun index_opt :: "'a list \<Rightarrow> nat \<Rightarrow> 'a option" where
  "index_opt [] i = None"
| "index_opt (x # xs) 0 = Some x"
| "index_opt (x # xs) (Suc i) = index_opt xs i"

text \<open>\<open>idx.toString()\<close>: the decimal digits of an array index.\<close>

fun toString :: "nat \<Rightarrow> string" where
  "toString n =
     (if n < 10 then [char_of (48 + n)]
      else toString (n div 10) @ [char_of (48 + n mod 10)])"

declare toString.simps [simp del]

text \<open>
  \<open>xs.findIndex((x, idx) => p(x, idx))\<close>: the first index whose element satisfies the
  predicate, \<open>None\<close> for the source's \<open>-1\<close>. \<open>findIndex_from\<close> carries the index of
  the head of the remaining list.
\<close>

fun findIndex_from :: "nat \<Rightarrow> ('a \<Rightarrow> nat \<Rightarrow> bool) \<Rightarrow> 'a list \<Rightarrow> nat option" where
  "findIndex_from i p [] = None"
| "findIndex_from i p (x # xs) = (if p x i then Some i else findIndex_from (Suc i) p xs)"

definition findIndex :: "('a \<Rightarrow> nat \<Rightarrow> bool) \<Rightarrow> 'a list \<Rightarrow> nat option" where
  "findIndex p xs = findIndex_from 0 p xs"

text \<open>\<open>xs.filter((x, idx) => p(x, idx))\<close>, with the index of the head carried along.\<close>

fun filter_from :: "nat \<Rightarrow> ('a \<Rightarrow> nat \<Rightarrow> bool) \<Rightarrow> 'a list \<Rightarrow> 'a list" where
  "filter_from i p [] = []"
| "filter_from i p (x # xs) =
     (if p x i then x # filter_from (Suc i) p xs else filter_from (Suc i) p xs)"

section \<open>Server: documents, requests and responses\<close>

text \<open>
  An address as the request and the response of \<open>POST /api/addresses\<close> carry it, and the
  stored sub-document, which Mongoose gives an \<open>_id\<close>.
\<close>

record address_fields =
  addr_name :: string
  phone :: string
  address :: string
  city :: string
  state :: string
  pincode :: string
  isDefault :: bool

record address_doc = address_fields +
  addr_id :: string

definition subdoc :: "string \<Rightarrow> address_fields \<Rightarrow> address_doc" where
  "subdoc new_id a =
     \<lparr>addr_name = addr_name a, phone = phone a, address = address a, city = city a,
      state = state a, pincode = pincode a, isDefault = isDefault a, addr_id = new_id\<rparr>"

text \<open>The \<open>orders\<close> sub-document; \<open>createdAt\<close> is a time stamp in milliseconds.\<close>

record order_doc =
  orderId :: string
  items :: "cart_item list"
  order_total :: jsnum
  deliveryAddress :: "address_doc option"
  paymentMethod :: string
  paymentId :: "string option"
  paymentStatus :: string
  status :: string
  createdAt :: nat

record user_doc =
  email :: string
  password :: string
  user_name :: string
  cart :: "cart_item list"
  orders :: "order_doc list"
  addresses :: "address_doc list"

text \<open>The store: user documents by \<open>_id\<close>.\<close>

type_synonym db = "string \<rightharpoonup> user_doc"

text \<open>
  Request bodies. A field that may be absent from the JSON body is an option; \<open>falsy\<close>
  is JavaScript's \<open>!v\<close> for a string field (absent or empty).
\<close>

record address_body =
  b_name :: "string option"
  b_phone :: "string option"
  b_address :: "string option"
  b_city :: "string option"
  b_state :: "string option"
  b_pincode :: "string option"
  b_isDefault :: "bool option"

record order_body =
  b_paymentMethod :: "string option"
  b_paymentId :: "string option"
  b_deliveryAddress :: "address_doc option"

definition falsy :: "string option \<Rightarrow> bool" where
  "falsy v = (case v of None \<Rightarrow> True | Some s \<Rightarrow> s = [])"

definition str :: "string option \<Rightarrow> string" where
  "str v = (case v of None \<Rightarrow> [] | Some s \<Rightarrow> s)"

text \<open>
  The protected routes. \<open>CartAdd name price image\<close>, \<open>CartUpdate name quantity\<close>,
  \<open>CartRemove name\<close>, \<open>UpdateAddress id updates\<close> and \<open>DeleteAddress id\<close> carry the
  body and the path parameter of the request.
\<close>

datatype request =
    GetCart
  | CartAdd string number string
  | CartUpdate string number
  | CartRemove string
  | CartClear
  | CreateOrder order_body
  | GetOrders
  | GetAddresses
  | AddAddress address_body
  | UpdateAddress string address_body
  | DeleteAddress string

text \<open>
  What a handler draws from its environment: the \<open>_id\<close> Mongoose gives a new address,
  the order id of \<open>generateOrderId()\<close> and the time of \<open>new Date()\<close>.
\<close>

record env =
  fresh_id :: string
  new_orderId :: string
  now :: nat

text \<open>The JSON bodies of the responses, and a response: its status and its body.\<close>

record user_info =
  info_id :: string
  info_email :: string
  info_name :: string

datatype json_body =
    ErrorBody string
  | CartBody "cart_item list" totals
  | OrderBody order_doc
  | OrdersBody "order_doc list"
  | AddressesBody "address_doc list"
  | AddressBody address_fields
  | AddressDocBody address_doc
  | SuccessBody
  | AuthBody string user_info

type_synonym response = "nat \<times> json_body"

section \<open>Server: the authentication middleware\<close>

text \<open>
  \<open>authenticateToken\<close>. \<open>jwt.verify(token, JWT_SECRET)\<close> is the parameter \<open>verify\<close>:
  it yields the \<open>userId\<close> of the payload, or \<open>None\<close> where the library throws (a bad
  signature, an expired token). The token, \<open>authHeader && authHeader.split(' ')[1]\<close>, is
  the second piece of the header split at spaces. The result is the response of the
  middleware, or the user's id and document for the handler (\<open>req.user\<close>).
\<close>

definition token_of_header :: "string option \<Rightarrow> string option" where
  "token_of_header authHeader =
     (case authHeader of
        None \<Rightarrow> None
      | Some h \<Rightarrow> if h = [] then None else index_opt (split_space h) 1)"

definition authenticateToken ::
  "(string \<Rightarrow> string option) \<Rightarrow> db \<Rightarrow> string option \<Rightarrow> response + string \<times> user_doc" where
  "authenticateToken verify store authHeader =
     (let token = token_of_header authHeader
      in if falsy token then Inl (401, ErrorBody ''Authentication required'')
         else (case verify (str token) of
                 None \<Rightarrow> Inl (403, ErrorBody ''Invalid or expired token'')
               | Some userId \<Rightarrow>
                   (case store userId of
                      None \<Rightarrow> Inl (401, ErrorBody ''User not found'')
                    | Some user \<Rightarrow> Inr (userId, user))))"

section \<open>Server: the handlers\<close>

text \<open>
  Each handler takes \<open>req.user\<close> and returns the document as the store holds it after
  the request (the saved one, or the loaded one where the handler does not save) and the
  response. A failing \<open>save()\<close> (the 500 answers) is not modelled.
\<close>

definition get_cart :: "user_doc \<Rightarrow> user_doc \<times> response" where
  "get_cart u = (u, (200, CartBody (cart u) (calculateCartTotal (cart u))))"

text \<open>\<open>POST /api/cart/add\<close>: \<open>!name || !price\<close> holds for an empty name or a price 0.\<close>

definition post_cart_add :: "string \<Rightarrow> number \<Rightarrow> string \<Rightarrow> user_doc \<Rightarrow> user_doc \<times> response" where
  "post_cart_add n p img u =
     (if n = [] \<or> p = 0 then (u, (400, ErrorBody ''Invalid product data''))
      else
        let cart' =
          (case findIndex (\<lambda>item idx. name item = n) (cart u) of
             Some i \<Rightarrow> (cart u)[i := (cart u ! i)\<lparr>quantity := quantity (cart u ! i) + 1\<rparr>]
           | None \<Rightarrow> cart u @ [\<lparr>name = n, price = p, quantity = 1, image = img\<rparr>])
        in (u\<lparr>cart := cart'\<rparr>, (200, CartBody cart' (calculateCartTotal cart'))))"

text \<open>
  \<open>PUT /api/cart/update\<close>: a quantity \<open>=== 0\<close> filters the name out; any other quantity
  is written to the first item of that name, if there is one.
\<close>

definition put_cart_update :: "string \<Rightarrow> number \<Rightarrow> user_doc \<Rightarrow> user_doc \<times> response" where
  "put_cart_update n q u =
     (let cart' =
        (if q = 0 then filter (\<lambda>item. name item \<noteq> n) (cart u)
         else (case findIndex (\<lambda>item idx. name item = n) (cart u) of
                 Some i \<Rightarrow> (cart u)[i := (cart u ! i)\<lparr>quantity := q\<rparr>]
               | None \<Rightarrow> cart u))
      in (u\<lparr>cart := cart'\<rparr>, (200, CartBody cart' (calculateCartTotal cart'))))"

definition delete_cart_remove :: "string \<Rightarrow> user_doc \<Rightarrow> user_doc \<times> response" where
  "delete_cart_remove n u =
     (let cart' = filter (\<lambda>item. name item \<noteq> n) (cart u)
      in (u\<lparr>cart := cart'\<rparr>, (200, CartBody cart' (calculateCartTotal cart'))))"

text \<open>\<open>DELETE /api/cart/clear\<close> answers with literal zero totals.\<close>

definition delete_cart_clear :: "user_doc \<Rightarrow> user_doc \<times> response" where
  "delete_cart_clear u =
     (u\<lparr>cart := []\<rparr>,
      (200, CartBody []
         \<lparr>subtotal = Finite 0, deliveryFee = Finite 0, tax = Finite 0, total = Finite 0\<rparr>))"

text \<open>
  \<open>POST /api/orders\<close>. \<open>[...req.user.cart]\<close> copies the cart; \<open>a || b\<close> on strings
  takes \<open>b\<close> for an absent or empty \<open>a\<close>; \<open>paymentMethod === 'cod'\<close> tests the
  body's field, not the defaulted one.
\<close>

definition post_orders :: "env \<Rightarrow> order_body \<Rightarrow> user_doc \<Rightarrow> user_doc \<times> response" where
  "post_orders e body u =
     (if length (cart u) = 0 then (u, (400, ErrorBody ''Cart is empty''))
      else
        let calculations = calculateCartTotal (cart u);
            order =
              \<lparr>orderId = new_orderId e,
               items = cart u,
               order_total = total calculations,
               deliveryAddress =
                 (case b_deliveryAddress body of
                    Some a \<Rightarrow> Some a
                  | None \<Rightarrow> find isDefault (addresses u)),
               paymentMethod =
                 (if falsy (b_paymentMethod body) then ''cod'' else str (b_paymentMethod body)),
               paymentId =
                 (if falsy (b_paymentId body) then None else b_paymentId body),
               paymentStatus =
                 (if b_paymentMethod body = Some ''cod'' then ''pending'' else ''completed''),
               status = ''confirmed'',
               createdAt = now e\<rparr>
        in (u\<lparr>orders := orders u @ [order], cart := []\<rparr>, (200, OrderBody order)))"

text \<open>
  \<open>GET /api/orders\<close> sorts the loaded array, newest first (the sort is stable), and
  does not save it.
\<close>

definition get_orders :: "user_doc \<Rightarrow> user_doc \<times> response" where
  "get_orders u = (u, (200, OrdersBody (sort_key (\<lambda>order. - int (createdAt order)) (orders u))))"

definition get_addresses :: "user_doc \<Rightarrow> user_doc \<times> response" where
  "get_addresses u = (u, (200, AddressesBody (addresses u)))"

text \<open>\<open>addr.isDefault = false\<close> for every address of the array.\<close>

definition clear_defaults :: "address_doc list \<Rightarrow> address_doc list" where
  "clear_defaults xs = map (\<lambda>addr. addr\<lparr>isDefault := False\<rparr>) xs"

text \<open>
  \<open>POST /api/addresses\<close>: a missing or empty field is answered 400; the other flags
  are cleared when the body asks for a default or the list is empty; the new address
  is the default in the same two cases.
\<close>

definition post_addresses :: "env \<Rightarrow> address_body \<Rightarrow> user_doc \<Rightarrow> user_doc \<times> response" where
  "post_addresses e body u =
     (if falsy (b_name body) \<or> falsy (b_phone body) \<or> falsy (b_address body)
         \<or> falsy (b_city body) \<or> falsy (b_state body) \<or> falsy (b_pincode body)
      then (u, (400, ErrorBody ''All address fields required''))
      else
        let wanted = (b_isDefault body = Some True);
            addresses' =
              (if wanted \<or> length (addresses u) = 0 then clear_defaults (addresses u)
               else addresses u);
            newAddress =
              \<lparr>addr_name = trim (str (b_name body)),
               phone = trim (str (b_phone body)),
               address = trim (str (b_address body)),
               city = trim (str (b_city body)),
               state = trim (str (b_state body)),
               pincode = trim (str (b_pincode body)),
               isDefault = (wanted \<or> length addresses' = 0)\<rparr>
        in (u\<lparr>addresses := addresses' @ [subdoc (fresh_id e) newAddress]\<rparr>,
            (200, AddressBody newAddress)))"

text \<open>\<open>Object.assign(addr, updates)\<close>: every field present in the body is written.\<close>

definition assign :: "address_doc \<Rightarrow> address_body \<Rightarrow> address_doc" where
  "assign a updates =
     a\<lparr>addr_name := (case b_name updates of None \<Rightarrow> addr_name a | Some v \<Rightarrow> v),
       phone := (case b_phone updates of None \<Rightarrow> phone a | Some v \<Rightarrow> v),
       address := (case b_address updates of None \<Rightarrow> address a | Some v \<Rightarrow> v),
       city := (case b_city updates of None \<Rightarrow> city a | Some v \<Rightarrow> v),
       state := (case b_state updates of None \<Rightarrow> state a | Some v \<Rightarrow> v),
       pincode := (case b_pincode updates of None \<Rightarrow> pincode a | Some v \<Rightarrow> v),
       isDefault := (case b_isDefault updates of None \<Rightarrow> isDefault a | Some v \<Rightarrow> v)\<rparr>"

text \<open>
  \<open>PUT /api/addresses/:id\<close>: the address is found by its index written in decimal or
  by its \<open>_id\<close>; 404 when there is none.
\<close>

definition put_addresses :: "string \<Rightarrow> address_body \<Rightarrow> user_doc \<Rightarrow> user_doc \<times> response" where
  "put_addresses ident updates u =
     (case findIndex (\<lambda>addr idx. toString idx = ident \<or> addr_id addr = ident) (addresses u) of
        None \<Rightarrow> (u, (404, ErrorBody ''Address not found''))
      | Some addressIndex \<Rightarrow>
          let addresses' =
                (if b_isDefault updates = Some True then clear_defaults (addresses u)
                 else addresses u);
              written = assign (addresses' ! addressIndex) updates
          in (u\<lparr>addresses := addresses'[addressIndex := written]\<rparr>,
              (200, AddressDocBody written)))"

definition delete_addresses :: "string \<Rightarrow> user_doc \<Rightarrow> user_doc \<times> response" where
  "delete_addresses ident u =
     (u\<lparr>addresses :=
          filter_from 0 (\<lambda>addr idx. toString idx \<noteq> ident \<and> addr_id addr \<noteq> ident) (addresses u)\<rparr>,
      (200, SuccessBody))"

text \<open>The route table of the protected routes.\<close>

fun handler :: "env \<Rightarrow> request \<Rightarrow> user_doc \<Rightarrow> user_doc \<times> response" where
  "handler e GetCart u = get_cart u"
| "handler e (CartAdd n p img) u = post_cart_add n p img u"
| "handler e (CartUpdate n q) u = put_cart_update n q u"
| "handler e (CartRemove n) u = delete_cart_remove n u"
| "handler e CartClear u = delete_cart_clear u"
| "handler e (CreateOrder body) u = post_orders e body u"
| "handler e GetOrders u = get_orders u"
| "handler e GetAddresses u = get_addresses u"
| "handler e (AddAddress body) u = post_addresses e body u"
| "handler e (UpdateAddress ident updates) u = put_addresses ident updates u"
| "handler e (DeleteAddress ident) u = delete_addresses ident u"

text \<open>
  A request to a protected route: the middleware answers, or the handler runs on the
  user's document and the store keeps the document the handler leaves.
\<close>

definition api ::
  "(string \<Rightarrow> string option) \<Rightarrow> env \<Rightarrow> db \<Rightarrow> string option \<Rightarrow> request \<Rightarrow> db \<times> response" where
  "api verify e store authHeader req =
     (case authenticateToken verify store authHeader of
        Inl res \<Rightarrow> (store, res)
      | Inr (userId, user) \<Rightarrow>
          (case handler e req user of
             (user', res) \<Rightarrow> (store(userId \<mapsto> user'), res)))"

text \<open>A sequence of requests, each with its own environment and header.\<close>

fun run_api ::
  "(string \<Rightarrow> string option) \<Rightarrow> db \<Rightarrow> (env \<times> string option \<times> request) list \<Rightarrow> db" where
  "run_api verify store [] = store"
| "run_api verify store ((e, h, req) # rest) =
     run_api verify (fst (api verify e store h req)) rest"

section \<open>Client: session, storage and the API call\<close>

text \<open>
  The browser state the script works on: the three \<open>localStorage\<close> entries
  (\<open>None\<close> for a missing key, values as parsed from their JSON text) and the variables
  \<open>cart\<close> and \<open>currentUser\<close>. Toasts, the DOM and page navigation are not modelled.
\<close>

record client =
  token :: "string option"
  stored_user :: "user_info option"
  cart_cache :: "cart_item list option"
  client_cart :: "cart_item list"
  currentUser :: "user_info option"

text \<open>
  What \<open>fetch\<close> is asked for, and what it gives back: a network failure, or a response
  with its status, whether its content type includes \<open>application/json\<close>, and the body
  as \<open>response.json()\<close> parses it (\<open>None\<close> where parsing throws). The network is a
  parameter \<open>net\<close> that threads a state of its own (the server's store, for instance).
\<close>

datatype endpoint =
    Login string string
  | Register string string string
  | Api request

datatype fetch_result =
    NetworkError
  | Response nat bool "json_body option"

type_synonym 'w net = "'w \<Rightarrow> string option \<Rightarrow> endpoint \<Rightarrow> 'w \<times> fetch_result"

text \<open>How an asynchronous function ends: it returns a value, returns nothing, or throws.\<close>

datatype 'a outcome =
    Returned 'a
  | ReturnedUndefined
  | Thrown string

text \<open>Express's \<open>res.status(s).json(b)\<close> as the browser receives it.\<close>

definition deliver :: "response \<Rightarrow> fetch_result" where
  "deliver res = Response (fst res) True (Some (snd res))"

definition isLoggedIn :: "client \<Rightarrow> bool" where
  "isLoggedIn st = (\<not> falsy (token st))"

text \<open>\<open>auth.logout()\<close> removes the token, the user and the cart cache.\<close>

definition logout :: "client \<Rightarrow> client" where
  "logout st = st\<lparr>token := None, stored_user := None, cart_cache := None\<rparr>"

definition getCachedCart :: "client \<Rightarrow> cart_item list" where
  "getCachedCart st = (case cart_cache st of None \<Rightarrow> [] | Some c \<Rightarrow> c)"

definition cacheCart :: "cart_item list \<Rightarrow> client \<Rightarrow> client" where
  "cacheCart cartData st = st\<lparr>cart_cache := Some cartData\<rparr>"

text \<open>The \<open>Authorization\<close> header: present when the stored token is truthy.\<close>

definition authorization :: "client \<Rightarrow> string option" where
  "authorization st = (if falsy (token st) then None else Some (''Bearer '' @ str (token st)))"

text \<open>\<open>data.error || `HTTP error! status: ${response.status}`\<close>.\<close>

definition error_message :: "nat \<Rightarrow> json_body \<Rightarrow> string" where
  "error_message st_code data =
     (case data of
        ErrorBody m \<Rightarrow> if m = [] then ''HTTP error! status: '' @ toString st_code else m
      | _ \<Rightarrow> ''HTTP error! status: '' @ toString st_code)"

text \<open>
  \<open>apiCall\<close>: the content type is tested first, then the body is parsed, then the status
  is looked at; a 401 or a 403 logs out and returns nothing, any other status outside
  200..299 throws. The texts of the errors that \<open>fetch\<close> and \<open>response.json()\<close> throw
  are the browser's; \<open>network error\<close> and \<open>SyntaxError\<close> stand for them.
\<close>

definition apiCall :: "'w net \<Rightarrow> endpoint \<Rightarrow> client \<times> 'w \<Rightarrow> (client \<times> 'w) \<times> json_body outcome" where
  "apiCall net ep sw =
     (case sw of (st, w) \<Rightarrow>
        (case net w (authorization st) ep of (w', fr) \<Rightarrow>
           (case fr of
              NetworkError \<Rightarrow> ((st, w'), Thrown ''network error'')
            | Response st_code is_json parsed \<Rightarrow>
                if \<not> is_json
                then ((st, w'), Thrown ''Server returned HTML. Check API configuration.'')
                else (case parsed of
                        None \<Rightarrow> ((st, w'), Thrown ''SyntaxError'')
                      | Some data \<Rightarrow>
                          if \<not> (200 \<le> st_code \<and> st_code \<le> 299)
                          then (if st_code = 401 \<or> st_code = 403
                                then ((logout st, w'), ReturnedUndefined)
                                else ((st, w'), Thrown (error_message st_code data)))
                          else ((st, w'), Returned data)))))"

section \<open>Client: cart, login and addresses\<close>

text \<open>\<open>data.cart\<close> and \<open>data.address\<close>: \<open>None\<close> where the body has no such field.\<close>

definition cart_of :: "json_body \<Rightarrow> cart_item list option" where
  "cart_of data = (case data of CartBody c t \<Rightarrow> Some c | _ \<Rightarrow> None)"

definition address_of :: "json_body \<Rightarrow> address_fields option" where
  "address_of data =
     (case data of
        AddressBody a \<Rightarrow> Some a
      | AddressDocBody d \<Rightarrow> Some (address_fields.truncate d)
      | _ \<Rightarrow> None)"

text \<open>
  \<open>loadCart\<close>: a guest reads the cache; a logged-in user asks \<open>GET /api/cart\<close> and
  stores \<open>data.cart || []\<close> in the variable and in the cache; when the call throws or
  returns nothing (reading \<open>data.cart\<close> then throws), the cache is read instead.
\<close>

definition loadCart :: "'w net \<Rightarrow> client \<times> 'w \<Rightarrow> (client \<times> 'w) \<times> cart_item list" where
  "loadCart net sw =
     (case sw of (st, w) \<Rightarrow>
        if \<not> isLoggedIn st
        then ((st\<lparr>client_cart := getCachedCart st\<rparr>, w), getCachedCart st)
        else (case apiCall net (Api GetCart) (st, w) of
                ((st', w'), Returned data) \<Rightarrow>
                  (let c = (case cart_of data of None \<Rightarrow> [] | Some c \<Rightarrow> c)
                   in ((cacheCart c (st'\<lparr>client_cart := c\<rparr>), w'), c))
              | ((st', w'), ReturnedUndefined) \<Rightarrow>
                  ((st'\<lparr>client_cart := getCachedCart st'\<rparr>, w'), getCachedCart st')
              | ((st', w'), Thrown m) \<Rightarrow>
                  ((st'\<lparr>client_cart := getCachedCart st'\<rparr>, w'), getCachedCart st')))"

text \<open>
  \<open>handleLogin\<close>: the token and the user of the answer are stored, then the cart is
  loaded; the function returns \<open>true\<close>. A call that returns nothing makes
  \<open>data.token\<close> throw, and every error is thrown on. An answer of another shape than
  \<open>{token, user}\<close> (this server sends none with a 2xx status) stores the text
  \<open>undefined\<close> as the token, loads the cart and throws at \<open>data.user.name\<close>; the stored
  user text \<open>undefined\<close> is represented by \<open>None\<close>.
\<close>

definition handleLogin ::
  "'w net \<Rightarrow> string \<Rightarrow> string \<Rightarrow> client \<times> 'w \<Rightarrow> (client \<times> 'w) \<times> bool outcome" where
  "handleLogin net mail pw sw =
     (case apiCall net (Login mail pw) sw of
        ((st1, w1), Returned data) \<Rightarrow>
          (case data of
             AuthBody tok usr \<Rightarrow>
               (let st2 = st1\<lparr>token := Some tok, stored_user := Some usr, currentUser := Some usr\<rparr>
                in (fst (loadCart net (st2, w1)), Returned True))
           | _ \<Rightarrow>
               (let st2 = st1\<lparr>token := Some ''undefined'', stored_user := None, currentUser := None\<rparr>
                in (fst (loadCart net (st2, w1)), Thrown ''TypeError'')))
      | ((st1, w1), ReturnedUndefined) \<Rightarrow> ((st1, w1), Thrown ''TypeError'')
      | ((st1, w1), Thrown m) \<Rightarrow> ((st1, w1), Thrown m))"

text \<open>
  \<open>updateCartItemQuantity\<close>: a guest writes \<open>Math.max(1, quantity)\<close> to the first item
  of that name and caches the cart; a logged-in user sends that clamped quantity to
  \<open>PUT /api/cart/update\<close> and takes \<open>data.cart\<close>. Errors are caught and leave the cart as
  it is (so does, in this model, an answer without a cart, which this server never sends).
\<close>

definition updateCartItemQuantity ::
  "'w net \<Rightarrow> string \<Rightarrow> number \<Rightarrow> client \<times> 'w \<Rightarrow> client \<times> 'w" where
  "updateCartItemQuantity net productName q sw =
     (case sw of (st, w) \<Rightarrow>
        if \<not> isLoggedIn st
        then (case findIndex (\<lambda>i idx. name i = productName) (client_cart st) of
                Some k \<Rightarrow>
                  (let c = (client_cart st)[k := (client_cart st ! k)\<lparr>quantity := max 1 q\<rparr>]
                   in (cacheCart c (st\<lparr>client_cart := c\<rparr>), w))
              | None \<Rightarrow> (st, w))
        else (case apiCall net (Api (CartUpdate productName (max 1 q))) (st, w) of
                ((st', w'), Returned data) \<Rightarrow>
                  (case cart_of data of
                     Some c \<Rightarrow> (cacheCart c (st'\<lparr>client_cart := c\<rparr>), w')
                   | None \<Rightarrow> (st', w'))
              | ((st', w'), ReturnedUndefined) \<Rightarrow> (st', w')
              | ((st', w'), Thrown m) \<Rightarrow> (st', w')))"

text \<open>
  The validation of \<open>addAddress\<close>: \<open>!addressData[field]?.trim()\<close> for the six required
  fields, then the phone and the pincode with their white space removed against
  \<open>/^[0-9]{10}$/\<close> and \<open>/^[0-9]{6}$/\<close>. The result is the toast's message (without
  the list of the missing fields), \<open>None\<close> for valid data.
\<close>

definition blank :: "string option \<Rightarrow> bool" where
  "blank v = (case v of None \<Rightarrow> True | Some s \<Rightarrow> trim s = [])"

definition validate_address :: "address_body \<Rightarrow> string option" where
  "validate_address addressData =
     (if blank (b_name addressData) \<or> blank (b_phone addressData) \<or> blank (b_address addressData)
         \<or> blank (b_city addressData) \<or> blank (b_state addressData)
         \<or> blank (b_pincode addressData)
      then Some ''Missing''
      else if \<not> digits_exactly 10 (strip_spaces (str (b_phone addressData)))
      then Some ''Phone must be 10 digits''
      else if \<not> digits_exactly 6 (strip_spaces (str (b_pincode addressData)))
      then Some ''Pincode must be 6 digits''
      else None)"

text \<open>
  \<open>addAddress\<close>: \<open>null\<close> (here \<open>None\<close>) for a guest and for invalid data, without any
  request; otherwise the trimmed fields go to \<open>POST /api/addresses\<close> and \<open>data.address\<close>
  is returned; every error is caught and gives \<open>null\<close>.
\<close>

definition addAddress ::
  "'w net \<Rightarrow> address_body \<Rightarrow> client \<times> 'w \<Rightarrow> (client \<times> 'w) \<times> address_fields option" where
  "addAddress net addressData sw =
     (case sw of (st, w) \<Rightarrow>
        if \<not> isLoggedIn st then ((st, w), None)
        else if validate_address addressData \<noteq> None then ((st, w), None)
        else
          (case apiCall net
                  (Api (AddAddress
                     \<lparr>b_name = Some (trim (str (b_name addressData))),
                      b_phone = Some (trim (str (b_phone addressData))),
                      b_address = Some (trim (str (b_address addressData))),
                      b_city = Some (trim (str (b_city addressData))),
                      b_state = Some (trim (str (b_state addressData))),
                      b_pincode = Some (trim (str (b_pincode addressData))),
                      b_isDefault = Some (b_isDefault addressData = Some True)\<rparr>))
                  (st, w) of
             (sw', Returned data) \<Rightarrow> (sw', address_of data)
           | (sw', ReturnedUndefined) \<Rightarrow> (sw', None)
           | (sw', Thrown m) \<Rightarrow> (sw', None)))"

text \<open>
  The server as the client's network: a protected route is served by \<open>api\<close>; the public
  routes (login, registration) are the parameter \<open>public\<close>.
\<close>

definition server_net ::
  "(string \<Rightarrow> string option) \<Rightarrow> env \<Rightarrow> (db \<Rightarrow> endpoint \<Rightarrow> db \<times> response) \<Rightarrow> db net" where
  "server_net verify e public store authHeader ep =
     (case ep of
        Api req \<Rightarrow> (case api verify e store authHeader req of (store', res) \<Rightarrow> (store', deliver res))
      | _ \<Rightarrow> (case public store ep of (store', res) \<Rightarrow> (store', deliver res)))"

section \<open>Invariants and sequences of operations\<close>

text \<open>At most one address is the default.\<close>

definition one_default :: "address_doc list \<Rightarrow> bool" where
  "one_default xs = (length (filter isDefault xs) \<le> 1)"

text \<open>The address at index \<open>i\<close> is the default and no other address is.\<close>

definition only_default_at :: "nat \<Rightarrow> address_doc list \<Rightarrow> bool" where
  "only_default_at i xs =
     (i < length xs \<and> isDefault (xs ! i)
      \<and> list_all (\<lambda>addr. \<not> isDefault addr) (take i xs)
      \<and> list_all (\<lambda>addr. \<not> isDefault addr) (drop (Suc i) xs))"

text \<open>Every quantity of a cart is at least 1.\<close>

definition quantities_ok :: "cart_item list \<Rightarrow> bool" where
  "quantities_ok c = list_all (\<lambda>item. 1 \<le> quantity item) c"

section \<open>Example data\<close>

text \<open>
  A store with one user, the token that \<open>verify\<close> accepts for her, and request bodies,
  used to run the definitions on concrete inputs.
\<close>

definition alice :: user_doc where
  "alice = \<lparr>email = ''alice@example.com'', password = ''hash'', user_name = ''Alice'',
            cart = [], orders = [], addresses = []\<rparr>"

definition verify1 :: "string \<Rightarrow> string option" where
  "verify1 t = (if t = ''tok'' then Some ''u1'' else None)"

definition store1 :: db where
  "store1 = Map.empty(''u1'' \<mapsto> alice)"

definition env1 :: env where
  "env1 = \<lparr>fresh_id = ''a1'', new_orderId = ''ORD-1'', now = 1000\<rparr>"

definition env2 :: env where
  "env2 = \<lparr>fresh_id = ''a2'', new_orderId = ''ORD-2'', now = 2000\<rparr>"

definition home :: address_body where
  "home = \<lparr>b_name = Some ''Alice'', b_phone = Some ''9876543210'', b_address = Some ''1 Main St'',
           b_city = Some ''Pune'', b_state = Some ''MH'', b_pincode = Some ''411001'',
           b_isDefault = None\<rparr>"

definition only_default :: address_body where
  "only_default = \<lparr>b_name = None, b_phone = None, b_address = None, b_city = None,
                   b_state = None, b_pincode = None, b_isDefault = Some True\<rparr>"

definition pills :: cart_item where
  "pills = \<lparr>name = ''Pills'', price = 250, quantity = 2, image = ''p.png''\<rparr>"


definition drops :: cart_item where
  "drops = \<lparr>name = ''Drops'', price = dbl (10010 / 100), quantity = 1, image = ''d.png''\<rparr>"

definition swabs :: cart_item where
  "swabs = \<lparr>name = ''Swabs'', price = dbl (10 / 100), quantity = 3, image = ''s.png''\<rparr>"



definition balm :: cart_item where
  "balm = \<lparr>name = ''Balm'', price = dbl (332 / 100), quantity = 2, image = ''b.png''\<rparr>"

definition oil :: cart_item where
  "oil = \<lparr>name = ''Oil'', price = dbl (12334 / 100), quantity = 4, image = ''o.png''\<rparr>"


definition home_doc :: address_doc where
  "home_doc = \<lparr>addr_name = ''Alice'', phone = ''9876543210'', address = ''1 Main St'',
               city = ''Pune'', state = ''MH'', pincode = ''411001'', isDefault = True,
               addr_id = ''a1''\<rparr>"

definition shopper :: user_doc where
  "shopper = alice\<lparr>cart := [pills], addresses := [home_doc]\<rparr>"

definition store2 :: db where
  "store2 = Map.empty(''u1'' \<mapsto> shopper)"

definition cod :: order_body where
  "cod = \<lparr>b_paymentMethod = Some ''cod'', b_paymentId = Some ''cod_1'',
          b_deliveryAddress = None\<rparr>"

definition first_order :: order_doc where
  "first_order =
     \<lparr>orderId = ''ORD-1'', items = [pills], order_total = Finite 575,
      deliveryAddress = Some home_doc, paymentMethod = ''cod'', paymentId = Some ''cod_1'',
      paymentStatus = ''pending'', status = ''confirmed'', createdAt = 1000\<rparr>"

definition alice_info :: user_info where
  "alice_info = \<lparr>info_id = ''u1'', info_email = ''alice@example.com'', info_name = ''Alice''\<rparr>"

definition guest :: client where
  "guest = \<lparr>token = None, stored_user = None, cart_cache = Some [pills],
            client_cart = [pills], currentUser = None\<rparr>"

definition stale :: client where
  "stale = \<lparr>token = Some ''old'', stored_user = Some alice_info, cart_cache = Some [pills],
            client_cart = [pills], currentUser = Some alice_info\<rparr>"

definition public1 :: "db \<Rightarrow> endpoint \<Rightarrow> db \<times> response" where
  "public1 store ep =
     (case ep of
        Login mail pw \<Rightarrow>
          if mail = ''alice@example.com'' \<and> pw = ''secret''
          then (store, (200, AuthBody ''tok'' alice_info))
          else (store, (401, ErrorBody ''Invalid credentials''))
      | _ \<Rightarrow> (store, (404, ErrorBody ''Not found'')))"

definition member :: client where
  "member = \<lparr>token = Some ''tok'', stored_user = Some alice_info, cart_cache = Some [],
             client_cart = [], currentUser = Some alice_info\<rparr>"

definition short_phone :: address_body where
  "short_phone = home\<lparr>b_phone := Some ''123'', b_pincode := Some ''1''\<rparr>"

definition later_requests :: "(env \<times> string option \<times> request) list" where
  "later_requests =
     [(env2, Some ''Bearer tok'', CartAdd ''Syrup'' 80 ''s.png''),
      (env2, Some ''Bearer tok'', UpdateAddress ''0'' (only_default\<lparr>b_city := Some ''Mumbai''\<rparr>)),
      (env2, Some ''Bearer tok'', DeleteAddress ''a1''),
      (env2, Some ''Bearer tok'', GetOrders),
      (env2, Some ''Bearer tok'', CartUpdate ''Syrup'' 3)]"

section \<open>Properties of the double arithmetic\<close>

lemma bitlen_pos: "0 < n \<Longrightarrow> 0 < bitlen n"
  by (subst bitlen.simps) simp

lemma bitlen_bounds: "0 < n \<Longrightarrow> 2 ^ (bitlen n - 1) \<le> n \<and> n < 2 ^ bitlen n"
proof (induction n rule: bitlen.induct)
  case (1 n)
  show ?case
  proof (cases "n div 2 \<le> 0")
    case True
    then have "n = 1" using 1(2) by linarith
    then show ?thesis by (simp add: bitlen.simps)
  next
    case False
    then have h: "0 < n div 2" by simp
    have b: "bitlen n = Suc (bitlen (n div 2))"
      using 1(2) by (subst bitlen.simps) simp
    from 1(1) [OF _ h] 1(2)
    have ih: "2 ^ (bitlen (n div 2) - 1) \<le> n div 2" "n div 2 < 2 ^ bitlen (n div 2)"
      by simp_all
    have p: "0 < bitlen (n div 2)" using h by (rule bitlen_pos)
    then have "(2::int) ^ bitlen (n div 2) = 2 * 2 ^ (bitlen (n div 2) - 1)"
      by (cases "bitlen (n div 2)") simp_all
    then have "2 ^ bitlen (n div 2) \<le> n"
      using ih(1) by linarith
    moreover have "n < 2 * 2 ^ bitlen (n div 2)"
      using ih(2) by linarith
    ultimately show ?thesis
      by (simp add: b)
  qed
qed

lemma pow2_powi: "pow2 e = 2 powi e"
  by (simp add: pow2_def power_int_def power_one_over)

lemma pow2_pos: "0 < pow2 e"
  by (simp add: pow2_powi)

lemma pow2_mono: "d \<le> e \<Longrightarrow> pow2 d \<le> pow2 e"
  by (simp add: pow2_powi power_int_increasing)

lemma ilog2_bounds:
  assumes "0 < a"
  shows "pow2 (ilog2 a) \<le> a \<and> a < pow2 (ilog2 a + 1)"
proof (cases "1 \<le> a")
  case True
  define n where "n = \<lfloor>a\<rfloor>"
  have n: "0 < n" "of_int n \<le> a" "a < of_int n + 1"
    using True unfolding n_def by (simp_all add: le_floor_iff) linarith+
  have i: "ilog2 a = int (bitlen n) - 1"
    using True by (simp add: ilog2_def n_def)
  have b: "2 ^ (bitlen n - 1) \<le> n" "n < 2 ^ bitlen n"
    using bitlen_bounds [OF n(1)] by simp_all
  have p: "0 < bitlen n" using n(1) by (rule bitlen_pos)
  have "pow2 (int (bitlen n) - 1) = 2 ^ (bitlen n - 1)"
    using p by (simp add: pow2_def nat_diff_distrib')
  moreover have "(2::rat) ^ (bitlen n - 1) \<le> of_int n"
    using b(1) by (metis of_int_le_iff of_int_numeral of_int_power)
  moreover have "pow2 (int (bitlen n) - 1 + 1) = 2 ^ bitlen n"
    by (simp add: pow2_def)
  moreover have "of_int n + 1 \<le> (2::rat) ^ bitlen n"
  proof -
    have "n + 1 \<le> 2 ^ bitlen n" using b(2) by simp
    then have "(of_int (n + 1) :: rat) \<le> of_int (2 ^ bitlen n)"
      by (simp only: of_int_le_iff)
    then show ?thesis by simp
  qed
  ultimately show ?thesis
    unfolding i using n(2,3) by linarith
next
  case False
  define s where "s = 1 / a"
  define m where "m = \<lceil>s\<rceil> - 1"
  have s: "1 < s" using False assms by (simp add: s_def)
  then have c: "2 \<le> \<lceil>s\<rceil>" by (simp add: le_ceiling_iff)
  have m: "0 < m" "of_int m < s" "s \<le> of_int m + 1"
    using c unfolding m_def by (simp_all) linarith+
  have i: "ilog2 a = - int (bitlen m)"
    using False by (simp add: ilog2_def m_def s_def)
  have b: "2 ^ (bitlen m - 1) \<le> m" "m < 2 ^ bitlen m"
    using bitlen_bounds [OF m(1)] by simp_all
  have p: "0 < bitlen m" using m(1) by (rule bitlen_pos)
  have up: "s \<le> 2 ^ bitlen m"
  proof -
    have "m + 1 \<le> 2 ^ bitlen m" using b(2) by simp
    then have "(of_int (m + 1) :: rat) \<le> of_int (2 ^ bitlen m)"
      by (simp only: of_int_le_iff)
    then show ?thesis using m(3) by simp
  qed
  have lo: "2 ^ (bitlen m - 1) < s"
  proof -
    have "(2::rat) ^ (bitlen m - 1) \<le> of_int m"
      using b(1) by (metis of_int_le_iff of_int_numeral of_int_power)
    then show ?thesis using m(2) by linarith
  qed
  have "pow2 (- int (bitlen m)) = 1 / 2 ^ bitlen m"
    using p by (simp add: pow2_def)
  moreover have "1 / 2 ^ bitlen m \<le> a"
    using up assms by (simp add: s_def field_simps)
  moreover have "pow2 (- int (bitlen m) + 1) = 1 / 2 ^ (bitlen m - 1)"
    using p by (cases "bitlen m") (simp_all add: pow2_def nat_diff_distrib')
  moreover have "a < 1 / 2 ^ (bitlen m - 1)"
    using lo assms by (simp add: s_def field_simps)
  ultimately show ?thesis
    unfolding i by linarith
qed

lemma ilog2_unique:
  assumes "pow2 e \<le> a" and "a < pow2 (e + 1)"
  shows "ilog2 a = e"
proof -
  have "0 < a" using assms(1) pow2_pos [of e] by linarith
  then have b: "pow2 (ilog2 a) \<le> a" "a < pow2 (ilog2 a + 1)"
    using ilog2_bounds by simp_all
  have "pow2 (ilog2 a) < pow2 (e + 1)" using b(1) assms(2) by linarith
  then have "ilog2 a < e + 1"
    using pow2_mono [of "e + 1" "ilog2 a"] by (cases "ilog2 a < e + 1") simp_all
  moreover have "pow2 e < pow2 (ilog2 a + 1)" using b(2) assms(1) by linarith
  then have "e < ilog2 a + 1"
    using pow2_mono [of "ilog2 a + 1" e] by (cases "e < ilog2 a + 1") simp_all
  ultimately show ?thesis by simp
qed

lemma to_double_zero [simp]: "to_double 0 = Finite 0"
  by (simp add: to_double_def)

text \<open>Evaluating \<open>to_double\<close> at a rational whose binary exponent is known.\<close>

lemma to_double_pos:
  assumes "pow2 e \<le> a" and "a < pow2 (e + 1)" and "- 1022 \<le> e"
    and "round_half_even (a / pow2 (e - 52)) = k"
    and "of_int k * pow2 (e - 52) = v" and "v < pow2 1024"
  shows "to_double a = Finite v" and "to_double (- a) = Finite (- v)"
proof -
  have a: "0 < a" using assms(1) pow2_pos [of e] by linarith
  have i: "ilog2 a = e" using assms(1,2) by (rule ilog2_unique)
  have m: "max e (- 1022) = e" using assms(3) by simp
  show "to_double a = Finite v"
    using a i m assms(4,5,6) by (simp add: to_double_def Let_def)
  show "to_double (- a) = Finite (- v)"
    using a i m assms(4,5,6) by (simp add: to_double_def Let_def)
qed

lemma floor_rat_divide_numeral [simp]:
  "\<lfloor>numeral a / numeral b :: rat\<rfloor> = numeral a div numeral b"
  by (metis floor_divide_of_int_eq of_int_numeral)

lemma floor_rat_one_divide_numeral [simp]:
  "\<lfloor>1 / numeral b :: rat\<rfloor> = 1 div numeral b"
  by (metis floor_divide_of_int_eq of_int_1 of_int_numeral)

text \<open>
  The values of \<open>to_double\<close> that the example carts need, each from its binary
  exponent and its rounded significand.
\<close>

lemma double_1:
  "to_double (4867778304876401892539258330153 / 324518553658426726783156020576256) = Finite (4323455642275677 / 288230376151711744)"
  using to_double_pos(1) [of "- 7" "4867778304876401892539258330153 / 324518553658426726783156020576256" 8646911284551354 "4323455642275677 / 288230376151711744"]
  by (simp add: pow2_def round_half_even_def Let_def)

lemma double_2:
  "to_double (1 / 50) = Finite (5764607523034235 / 288230376151711744)"
  using to_double_pos(1) [of "- 6" "1 / 50" 5764607523034235 "5764607523034235 / 288230376151711744"]
  by (simp add: pow2_def round_half_even_def Let_def)

lemma double_3:
  "to_double (1 / 20) = Finite (3602879701896397 / 72057594037927936)"
  using to_double_pos(1) [of "- 5" "1 / 20" 7205759403792794 "3602879701896397 / 72057594037927936"]
  by (simp add: pow2_def round_half_even_def Let_def)

lemma double_4:
  "to_double (1 / 10) = Finite (3602879701896397 / 36028797018963968)"
  using to_double_pos(1) [of "- 4" "1 / 10" 7205759403792794 "3602879701896397 / 36028797018963968"]
  by (simp add: pow2_def round_half_even_def Let_def)

lemma double_5:
  "to_double (3 / 10) = Finite (5404319552844595 / 18014398509481984)"
  using to_double_pos(1) [of "- 2" "3 / 10" 5404319552844595 "5404319552844595 / 18014398509481984"]
  by (simp add: pow2_def round_half_even_def Let_def)

lemma double_6:
  "to_double (10808639105689191 / 36028797018963968) = Finite (1351079888211149 / 4503599627370496)"
  using to_double_pos(1) [of "- 2" "10808639105689191 / 36028797018963968" 5404319552844596 "1351079888211149 / 4503599627370496"]
  by (simp add: pow2_def round_half_even_def Let_def)

lemma double_7:
  "to_double (1351079888211149 / 4503599627370496) = Finite (1351079888211149 / 4503599627370496)"
  using to_double_pos(1) [of "- 2" "1351079888211149 / 4503599627370496" 5404319552844596 "1351079888211149 / 4503599627370496"]
  by (simp add: pow2_def round_half_even_def Let_def)





lemma double_12:
  "to_double (83 / 25) = Finite (7475975381435023 / 2251799813685248)"
  using to_double_pos(1) [of "1" "83 / 25" 7475975381435023 "7475975381435023 / 2251799813685248"]
  by (simp add: pow2_def round_half_even_def Let_def)

lemma double_13:
  "to_double (5) = Finite (5)"
  using to_double_pos(1) [of "2" "5" 5629499534213120 "5"]
  by (simp add: pow2_def round_half_even_def Let_def)

lemma double_14:
  "to_double (12689182508284576292797187924951 / 2535301200456458802993406410752) = Finite (5635129033747333 / 1125899906842624)"
  using to_double_pos(1) [of "2" "12689182508284576292797187924951 / 2535301200456458802993406410752" 5635129033747333 "5635129033747333 / 1125899906842624"]
  by (simp add: pow2_def round_half_even_def Let_def)

lemma double_15:
  "to_double (7475975381435023 / 1125899906842624) = Finite (7475975381435023 / 1125899906842624)"
  using to_double_pos(1) [of "2" "7475975381435023 / 1125899906842624" 7475975381435023 "7475975381435023 / 1125899906842624"]
  by (simp add: pow2_def round_half_even_def Let_def)


lemma double_17:
  "to_double (25 / 2) = Finite (25 / 2)"
  "to_double (- (25 / 2)) = Finite (- (25 / 2))"
  using to_double_pos [of "3" "25 / 2" 7036874417766400 "25 / 2"]
  by (simp_all add: pow2_def round_half_even_def Let_def)

lemma double_18:
  "to_double (450359962737049625 / 36028797018963968) = Finite (25 / 2)"
  "to_double (- (450359962737049625 / 36028797018963968)) = Finite (- (25 / 2))"
  using to_double_pos [of "3" "450359962737049625 / 36028797018963968" 7036874417766400 "25 / 2"]
  by (simp_all add: pow2_def round_half_even_def Let_def)

lemma double_19:
  "to_double (25) = Finite (25)"
  using to_double_pos(1) [of "4" "25" 7036874417766400 "25"]
  by (simp add: pow2_def round_half_even_def Let_def)

lemma double_20:
  "to_double (450359962737049625 / 18014398509481984) = Finite (25)"
  using to_double_pos(1) [of "4" "450359962737049625 / 18014398509481984" 7036874417766400 "25"]
  by (simp add: pow2_def round_half_even_def Let_def)




lemma double_24:
  "to_double (50) = Finite (50)"
  using to_double_pos(1) [of "5" "50" 7036874417766400 "50"]
  by (simp add: pow2_def round_half_even_def Let_def)

lemma double_25:
  "to_double (226531061256735949 / 4503599627370496) = Finite (3539547832136499 / 70368744177664)"
  using to_double_pos(1) [of "5" "226531061256735949 / 4503599627370496" 7079095664272998 "3539547832136499 / 70368744177664"]
  by (simp add: pow2_def round_half_even_def Let_def)

lemma double_26:
  "to_double (5031 / 100) = Finite (885062879894569 / 17592186044416)"
  using to_double_pos(1) [of "5" "5031 / 100" 7080503039156552 "885062879894569 / 17592186044416"]
  by (simp add: pow2_def round_half_even_def Let_def)

lemma double_27:
  "to_double (14502311376073375581 / 288230376151711744) = Finite (885150840824791 / 17592186044416)"
  using to_double_pos(1) [of "5" "14502311376073375581 / 288230376151711744" 7081206726598328 "885150840824791 / 17592186044416"]
  by (simp add: pow2_def round_half_even_def Let_def)




lemma double_31:
  "to_double (3521955646092083 / 35184372088832) = Finite (3521955646092083 / 35184372088832)"
  using to_double_pos(1) [of "6" "3521955646092083 / 35184372088832" 7043911292184166 "3521955646092083 / 35184372088832"]
  by (simp add: pow2_def round_half_even_def Let_def)

lemma double_32:
  "to_double (1001 / 10) = Finite (3521955646092083 / 35184372088832)"
  using to_double_pos(1) [of "6" "1001 / 10" 7043911292184166 "3521955646092083 / 35184372088832"]
  by (simp add: pow2_def round_half_even_def Let_def)

lemma double_33:
  "to_double (6167 / 50) = Finite (4339640453436539 / 35184372088832)"
  using to_double_pos(1) [of "6" "6167 / 50" 8679280906873078 "4339640453436539 / 35184372088832"]
  by (simp add: pow2_def round_half_even_def Let_def)

lemma double_34:
  "to_double (5281174250533683 / 35184372088832) = Finite (5281174250533683 / 35184372088832)"
  using to_double_pos(1) [of "7" "5281174250533683 / 35184372088832" 5281174250533683 "5281174250533683 / 35184372088832"]
  by (simp add: pow2_def round_half_even_def Let_def)

lemma double_35:
  "to_double (1551 / 10) = Finite (5457096110977843 / 35184372088832)"
  using to_double_pos(1) [of "7" "1551 / 10" 5457096110977843 "5457096110977843 / 35184372088832"]
  by (simp add: pow2_def round_half_even_def Let_def)

lemma double_36:
  "to_double (174632705050825189 / 1125899906842624) = Finite (5457272032838287 / 35184372088832)"
  using to_double_pos(1) [of "7" "174632705050825189 / 1125899906842624" 5457272032838287 "5457272032838287 / 35184372088832"]
  by (simp add: pow2_def round_half_even_def Let_def)


lemma double_38:
  "to_double (200) = Finite (200)"
  "to_double (- (200)) = Finite (- (200))"
  using to_double_pos [of "7" "200" 7036874417766400 "200"]
  by (simp_all add: pow2_def round_half_even_def Let_def)

lemma double_39:
  "to_double (425 / 2) = Finite (425 / 2)"
  "to_double (- (425 / 2)) = Finite (- (425 / 2))"
  using to_double_pos [of "7" "425 / 2" 7476679068876800 "425 / 2"]
  by (simp_all add: pow2_def round_half_even_def Let_def)

lemma double_40:
  "to_double (250) = Finite (250)"
  "to_double (- (250)) = Finite (- (250))"
  using to_double_pos [of "7" "250" 8796093022208000 "250"]
  by (simp_all add: pow2_def round_half_even_def Let_def)

lemma double_41:
  "to_double (4339640453436539 / 8796093022208) = Finite (4339640453436539 / 8796093022208)"
  using to_double_pos(1) [of "8" "4339640453436539 / 8796093022208" 8679280906873078 "4339640453436539 / 8796093022208"]
  by (simp add: pow2_def round_half_even_def Let_def)


lemma double_43:
  "to_double (500) = Finite (500)"
  using to_double_pos(1) [of "8" "500" 8796093022208000 "500"]
  by (simp add: pow2_def round_half_even_def Let_def)

lemma double_44:
  "to_double (562949953421312015 / 1125899906842624) = Finite (500)"
  using to_double_pos(1) [of "8" "562949953421312015 / 1125899906842624" 8796093022208000 "500"]
  by (simp add: pow2_def round_half_even_def Let_def)








lemma double_52:
  "to_double (550) = Finite (550)"
  using to_double_pos(1) [of "9" "550" 4837851162214400 "550"]
  by (simp add: pow2_def round_half_even_def Let_def)

lemma double_53:
  "to_double (575) = Finite (575)"
  using to_double_pos(1) [of "9" "575" 5057753487769600 "575"]
  by (simp add: pow2_def round_half_even_def Let_def)


lemmas drops_doubles =
  double_3 double_13 double_14 double_24 double_31 double_32 double_34 double_35
  double_36

lemmas swabs_doubles =
  double_1 double_2 double_3 double_4 double_5 double_6 double_7 double_24
  double_25 double_26 double_27


lemmas balm_oil_doubles =
  double_3 double_12 double_15 double_19 double_20 double_24 double_33 double_41
  double_43 double_44 double_52 double_53

lemmas pills_doubles =
  double_3 double_19 double_20 double_24 double_40 double_43 double_52 double_53


lemmas negative_pills_doubles =
  double_3 double_17 double_18 double_24 double_38 double_39 double_40

section \<open>Properties of the cart totals\<close>









subsection \<open>The totals of the example carts\<close>

lemmas cart_total_defs =
  client_calculateCartTotal_def calculateCartTotal_def parseFloat_toFixed2_def toFixed2_def
  js_gt_def dbl_def Let_def


text \<open>One item of 100.10: the server returns the tax 5 and the total 155.1.\<close>

lemma drops_totals:
  "calculateCartTotal [drops]
     = \<lparr>subtotal = to_double (1001 / 10), deliveryFee = Finite 50,
        tax = Finite 5, total = to_double (1551 / 10)\<rparr>"
  using drops_doubles by (simp add: cart_total_defs drops_def)

text \<open>Three items of 0.10: the client's subtotal is 0.30000000000000004.\<close>

lemma swabs_totals:
  "subtotal (client_calculateCartTotal [swabs]) = Finite (1351079888211149 / 4503599627370496)"
  "to_double (3 / 10) = Finite (5404319552844595 / 18014398509481984)"
  "calculateCartTotal [swabs]
     = \<lparr>subtotal = to_double (3 / 10), deliveryFee = Finite 50,
        tax = to_double (2 / 100), total = to_double (5031 / 100)\<rparr>"
  using swabs_doubles by (simp_all add: cart_total_defs swabs_def)


text \<open>Twice 3.32 and four times 123.34: the computed subtotal is exactly 500, the fee 50.\<close>

lemma balm_oil_totals:
  "client_calculateCartTotal [balm, oil]
     = \<lparr>subtotal = Finite 500, deliveryFee = Finite 50, tax = Finite 25, total = Finite 575\<rparr>"
  "calculateCartTotal [balm, oil]
     = \<lparr>subtotal = Finite 500, deliveryFee = Finite 50, tax = Finite 25, total = Finite 575\<rparr>"
  using balm_oil_doubles by (simp_all add: cart_total_defs balm_def oil_def)

lemma pills_totals:
  "client_calculateCartTotal [pills]
     = \<lparr>subtotal = Finite 500, deliveryFee = Finite 50, tax = Finite 25, total = Finite 575\<rparr>"
  "calculateCartTotal [pills]
     = \<lparr>subtotal = Finite 500, deliveryFee = Finite 50, tax = Finite 25, total = Finite 575\<rparr>"
  using pills_doubles by (simp_all add: cart_total_defs pills_def)


lemma negative_pills_totals:
  "calculateCartTotal [pills\<lparr>quantity := - 1\<rparr>]
     = \<lparr>subtotal = Finite (- 250), deliveryFee = Finite 50, tax = Finite (- (25 / 2)),
        total = Finite (- (425 / 2))\<rparr>"
  using negative_pills_doubles by (simp add: cart_total_defs pills_def)

subsection \<open>The claim\<close>





section \<open>Properties of the address list\<close>

lemma filter_clear_defaults: "filter isDefault (clear_defaults xs) = []"
  by (induction xs) (simp_all add: clear_defaults_def)

lemma length_clear_defaults: "length (clear_defaults xs) = length xs"
  by (simp add: clear_defaults_def)

lemma nth_clear_defaults: "j < length xs \<Longrightarrow> \<not> isDefault (clear_defaults xs ! j)"
  by (simp add: clear_defaults_def)

lemma length_filter_update_le:
  "length (filter P (xs[i := x])) \<le> length (filter P xs) + (if P x then 1 else 0)"
  by (induction xs arbitrary: i) (auto split: nat.splits)

lemma length_filter_update_same:
  "P x = P (xs ! i) \<Longrightarrow> length (filter P (xs[i := x])) = length (filter P xs)"
  by (induction xs arbitrary: i) (auto split: nat.splits)

lemma length_filter_filter_from:
  "length (filter P (filter_from k p xs)) \<le> length (filter P xs)"
  by (induction xs arbitrary: k) (auto simp add: le_SucI)

lemma findIndex_from_bounds:
  "findIndex_from k p xs = Some i \<Longrightarrow> k \<le> i \<and> i < k + length xs"
  by (induction xs arbitrary: k) (fastforce split: if_splits)+

lemma findIndex_bound: "findIndex p xs = Some i \<Longrightarrow> i < length xs"
  using findIndex_from_bounds [of 0 p xs i] by (simp add: findIndex_def)

lemma isDefault_assign:
  "isDefault (assign a updates) = (case b_isDefault updates of None \<Rightarrow> isDefault a | Some v \<Rightarrow> v)"
  by (simp add: assign_def)

lemma addresses_cart_routes:
  "addresses (fst (get_cart u)) = addresses u"
  "addresses (fst (post_cart_add n p img u)) = addresses u"
  "addresses (fst (put_cart_update n q u)) = addresses u"
  "addresses (fst (delete_cart_remove n u)) = addresses u"
  "addresses (fst (delete_cart_clear u)) = addresses u"
  "addresses (fst (get_orders u)) = addresses u"
  "addresses (fst (get_addresses u)) = addresses u"
  by (simp_all add: get_cart_def post_cart_add_def put_cart_update_def
      delete_cart_remove_def delete_cart_clear_def get_orders_def get_addresses_def Let_def)

lemma addresses_post_orders: "addresses (fst (post_orders e body u)) = addresses u"
  by (simp add: post_orders_def Let_def)

lemma one_default_post_addresses:
  assumes "one_default (addresses u)"
  shows "one_default (addresses (fst (post_addresses e body u)))"
proof -
  have new: "length (filter isDefault [subdoc i a]) \<le> 1" for i a
    by simp
  show ?thesis
    using assms
    by (simp add: post_addresses_def one_default_def Let_def filter_clear_defaults subdoc_def)
qed

lemma one_default_put_addresses:
  assumes "one_default (addresses u)"
  shows "one_default (addresses (fst (put_addresses ident updates u)))"
proof (cases "findIndex (\<lambda>addr idx. toString idx = ident \<or> addr_id addr = ident) (addresses u)")
  case None
  then show ?thesis using assms by (simp add: put_addresses_def)
next
  case (Some i)
  note found = Some
  show ?thesis
  proof (cases "b_isDefault updates = Some True")
    case True
    have "length (filter isDefault
               ((clear_defaults (addresses u))[i := assign (clear_defaults (addresses u) ! i) updates]))
            \<le> 1"
      using length_filter_update_le [of isDefault "clear_defaults (addresses u)" i
              "assign (clear_defaults (addresses u) ! i) updates"]
      by (simp add: filter_clear_defaults split: if_splits)
    then show ?thesis
      using found True by (simp add: put_addresses_def one_default_def Let_def)
  next
    case False
    have "isDefault (assign (addresses u ! i) updates) \<longrightarrow> isDefault (addresses u ! i)"
      using False by (cases "b_isDefault updates") (simp_all add: isDefault_assign)
    then have "length (filter isDefault ((addresses u)[i := assign (addresses u ! i) updates]))
            \<le> length (filter isDefault (addresses u))"
      using length_filter_update_le [of isDefault "addresses u" i "assign (addresses u ! i) updates"]
        length_filter_update_same [of isDefault "assign (addresses u ! i) updates" "addresses u" i]
      by (cases "isDefault (assign (addresses u ! i) updates)") simp_all
    then show ?thesis
      using assms found False by (simp add: put_addresses_def one_default_def Let_def)
  qed
qed

lemma one_default_delete_addresses:
  assumes "one_default (addresses u)"
  shows "one_default (addresses (fst (delete_addresses ident u)))"
proof -
  have "length (filter isDefault (filter_from 0
           (\<lambda>addr idx. toString idx \<noteq> ident \<and> addr_id addr \<noteq> ident) (addresses u)))
        \<le> length (filter isDefault (addresses u))"
    by (rule length_filter_filter_from)
  then show ?thesis
    using assms by (simp add: delete_addresses_def one_default_def)
qed

lemma one_default_handler:
  assumes "one_default (addresses u)"
  shows "one_default (addresses (fst (handler e req u)))"
  using assms
  by (cases req)
    (simp_all add: addresses_cart_routes addresses_post_orders one_default_post_addresses
      one_default_put_addresses one_default_delete_addresses)

section \<open>Properties of request sequences\<close>

lemma authenticateToken_user:
  "authenticateToken verify store h = Inr (userId, user) \<Longrightarrow> store userId = Some user"
  by (auto simp add: authenticateToken_def Let_def split: if_splits option.splits)

lemma api_step:
  assumes "store uid = Some u"
  shows "fst (api verify e store h req) uid = Some u
         \<or> fst (api verify e store h req) uid = Some (fst (handler e req u))"
proof (cases "authenticateToken verify store h")
  case (Inl res)
  then show ?thesis using assms by (simp add: api_def)
next
  case (Inr p)
  obtain userId user where p: "p = (userId, user)" by (cases p)
  have "store userId = Some user"
    using Inr p authenticateToken_user by simp
  then show ?thesis
    using assms Inr p by (cases "userId = uid") (simp_all add: api_def split: prod.splits)
qed

lemma run_api_invariant:
  assumes step: "\<And>e req v. P v \<Longrightarrow> P (fst (handler e req v))"
    and "store uid = Some u" and "P u"
  shows "\<exists>u'. run_api verify store reqs uid = Some u' \<and> P u'"
  using assms(2,3)
proof (induction reqs arbitrary: store u)
  case Nil
  then show ?case by simp
next
  case (Cons r reqs)
  obtain e h req where r: "r = (e, h, req)" by (cases r)
  have "fst (api verify e store h req) uid = Some u
         \<or> fst (api verify e store h req) uid = Some (fst (handler e req u))"
    using Cons.prems(1) by (rule api_step)
  then obtain u1 where "fst (api verify e store h req) uid = Some u1" and "P u1"
    using Cons.prems(2) step by auto
  then show ?case
    using Cons.IH r by simp
qed

section \<open>The default address\<close>

lemma list_all_clear_defaults:
  "list_all (\<lambda>addr. \<not> isDefault addr) (clear_defaults xs)"
  by (induction xs) (simp_all add: clear_defaults_def)

lemma list_all_take_drop:
  assumes "list_all P xs"
  shows "list_all P (take i xs)" and "list_all P (drop i xs)"
  using assms by (auto simp add: list_all_iff dest: in_set_takeD in_set_dropD)

lemma post_addresses_default:
  assumes "fst (snd (post_addresses e body u)) = 200"
    and "b_isDefault body = Some True \<or> addresses u = []"
  shows "only_default_at (length (addresses u)) (addresses (fst (post_addresses e body u)))"
  using assms list_all_clear_defaults [of "addresses u"]
  by (auto simp add: post_addresses_def Let_def only_default_at_def
      length_clear_defaults subdoc_def nth_append clear_defaults_def split: if_splits)

lemma put_addresses_default:
  assumes "fst (snd (put_addresses ident updates u)) = 200"
    and "b_isDefault updates = Some True"
  shows "\<exists>i. findIndex (\<lambda>addr idx. toString idx = ident \<or> addr_id addr = ident) (addresses u)
               = Some i
             \<and> only_default_at i (addresses (fst (put_addresses ident updates u)))"
proof (cases "findIndex (\<lambda>addr idx. toString idx = ident \<or> addr_id addr = ident) (addresses u)")
  case None
  then show ?thesis using assms(1) by (simp add: put_addresses_def)
next
  case (Some i)
  then have "i < length (addresses u)" by (rule findIndex_bound)
  then show ?thesis
    using Some assms(2) list_all_take_drop [OF list_all_clear_defaults, of _ "addresses u"]
    by (simp add: put_addresses_def Let_def only_default_at_def
        length_clear_defaults isDefault_assign)
qed

text \<open>
  Claim C2. Whatever requests the protected routes serve (address adds and updates among
  them), a user whose address list starts empty has at most one default address
  afterwards, and every single request keeps "at most one default". A successful add
  that asks for the default, or that adds the first address, leaves the new address as
  the only default; a successful update that asks for the default leaves the updated
  address as the only default: the flags of all other addresses are cleared.
\<close>

theorem at_most_one_default_address:
  "(store uid = Some u \<and> addresses u = [] \<longrightarrow>
      (\<exists>u'. run_api verify store reqs uid = Some u' \<and> one_default (addresses u')))
   \<and> (one_default (addresses u) \<longrightarrow> one_default (addresses (fst (handler e req u))))
   \<and> (fst (snd (post_addresses e body u)) = 200
        \<and> (b_isDefault body = Some True \<or> addresses u = []) \<longrightarrow>
      only_default_at (length (addresses u)) (addresses (fst (post_addresses e body u))))
   \<and> (fst (snd (put_addresses ident updates u)) = 200 \<and> b_isDefault updates = Some True \<longrightarrow>
      (\<exists>i. findIndex (\<lambda>addr idx. toString idx = ident \<or> addr_id addr = ident) (addresses u)
               = Some i
           \<and> only_default_at i (addresses (fst (put_addresses ident updates u)))))"
proof -
  have "\<exists>u'. run_api verify store reqs uid = Some u' \<and> one_default (addresses u')"
    if "store uid = Some u" and "addresses u = []"
  proof (rule run_api_invariant [where P = "\<lambda>v. one_default (addresses v)"])
    show "one_default (addresses (fst (handler e' req' v)))" if "one_default (addresses v)"
      for e' req' v using that by (rule one_default_handler)
    show "store uid = Some u" by (rule that(1))
    show "one_default (addresses u)" using that(2) by (simp add: one_default_def)
  qed
  then show ?thesis
    using one_default_handler post_addresses_default put_addresses_default by blast
qed

theorem at_most_one_default_address_witness:
  "store1 ''u1'' = Some alice \<and> addresses alice = []
   \<and> (\<exists>u'. run_api verify1 store1
              [(env1, Some ''Bearer tok'', AddAddress home),
               (env2, Some ''Bearer tok'', AddAddress home),
               (env2, Some ''Bearer tok'', UpdateAddress ''1'' only_default)] ''u1'' = Some u'
          \<and> one_default (addresses u'))
   \<and> fst (snd (post_addresses env1 home alice)) = 200
   \<and> only_default_at 0 (addresses (fst (post_addresses env1 home alice)))
   \<and> fst (snd (put_addresses ''1'' only_default
                 (fst (post_addresses env2 home (fst (post_addresses env1 home alice)))))) = 200
   \<and> b_isDefault only_default = Some True
   \<and> only_default_at 1 (addresses (fst (put_addresses ''1'' only_default
         (fst (post_addresses env2 home (fst (post_addresses env1 home alice)))))))"
proof -
  define u2 where "u2 = fst (post_addresses env2 home (fst (post_addresses env1 home alice)))"
  have s: "store1 ''u1'' = Some alice" by (simp add: store1_def)
  have a: "addresses alice = []" by (simp add: alice_def)
  have p: "fst (snd (post_addresses env1 home alice)) = 200" by code_simp
  have q: "fst (snd (put_addresses ''1'' only_default u2)) = 200"
    unfolding u2_def by code_simp
  have d: "b_isDefault only_default = Some True" by (simp add: only_default_def)
  have i: "findIndex (\<lambda>addr idx. toString idx = ''1'' \<or> addr_id addr = ''1'') (addresses u2)
             = Some 1"
    unfolding u2_def by code_simp
  define reqs where "reqs =
     [(env1, Some ''Bearer tok'', AddAddress home),
      (env2, Some ''Bearer tok'', AddAddress home),
      (env2, Some ''Bearer tok'', UpdateAddress ''1'' only_default)]"
  have r: "\<exists>u'. run_api verify1 store1 reqs ''u1'' = Some u' \<and> one_default (addresses u')"
    using at_most_one_default_address [of store1 "''u1''" alice verify1 reqs env1 GetCart home
        "''1''" only_default] s a by blast
  have "only_default_at (length (addresses alice))
          (addresses (fst (post_addresses env1 home alice)))"
    using at_most_one_default_address [of store1 "''u1''" alice verify1 reqs env1 GetCart home
        "''1''" only_default] a p by blast
  then have o: "only_default_at 0 (addresses (fst (post_addresses env1 home alice)))"
    using a by simp
  have "\<exists>i. findIndex (\<lambda>addr idx. toString idx = ''1'' \<or> addr_id addr = ''1'') (addresses u2)
               = Some i
           \<and> only_default_at i (addresses (fst (put_addresses ''1'' only_default u2)))"
    using at_most_one_default_address [of store1 "''u1''" u2 verify1 reqs env1 GetCart home
        "''1''" only_default] q d by blast
  then have w: "only_default_at 1 (addresses (fst (put_addresses ''1'' only_default u2)))"
    using i by auto
  show ?thesis
    using s a r p o q d w unfolding reqs_def u2_def by blast
qed

section \<open>Cart quantities\<close>

lemma quantities_ok_update:
  assumes "quantities_ok c" and "1 \<le> q"
  shows "quantities_ok (c[i := (c ! i)\<lparr>quantity := q\<rparr>])"
  using assms
  by (auto simp add: quantities_ok_def list_all_iff dest!: set_update_subset_insert [THEN subsetD])

lemma quantities_ok_post_cart_add:
  assumes "quantities_ok (cart u)"
  shows "quantities_ok (cart (fst (post_cart_add n p img u)))"
proof (cases "findIndex (\<lambda>item idx. name item = n) (cart u)")
  case None
  then show ?thesis
    using assms by (simp add: post_cart_add_def quantities_ok_def Let_def)
next
  case (Some i)
  then have "i < length (cart u)" by (rule findIndex_bound)
  then have "1 \<le> quantity (cart u ! i)"
    using assms by (simp add: quantities_ok_def list_all_length)
  then have "quantities_ok ((cart u)[i := (cart u ! i)\<lparr>quantity := quantity (cart u ! i) + 1\<rparr>])"
    using assms by (intro quantities_ok_update) simp_all
  then show ?thesis
    using assms Some by (simp add: post_cart_add_def Let_def)
qed

lemma quantities_ok_put_cart_update:
  assumes "quantities_ok (cart u)" and "q = 0 \<or> 1 \<le> q"
  shows "quantities_ok (cart (fst (put_cart_update n q u)))"
proof (cases "q = 0")
  case True
  then show ?thesis
    using assms(1) by (simp add: put_cart_update_def quantities_ok_def list_all_iff Let_def)
next
  case False
  then have "1 \<le> q" using assms(2) by simp
  then show ?thesis
    using assms(1) False quantities_ok_update [OF assms(1), of q]
    by (simp add: put_cart_update_def Let_def split: option.splits)
qed

lemma quantities_ok_guest_update:
  assumes "\<not> isLoggedIn st" and "quantities_ok (client_cart st)"
  shows "quantities_ok (client_cart (fst (updateCartItemQuantity net productName q (st, w))))"
  using assms quantities_ok_update [OF assms(2), of "max 1 q"]
  by (simp add: updateCartItemQuantity_def cacheCart_def Let_def split: option.splits)

text \<open>
  Claim C3 fails on the server. The client clamps the quantity with \<open>Math.max(1, quantity)\<close>
  on both of its paths, and the server removes the item for a quantity 0, but
  \<open>PUT /api/cart/update\<close> writes any other quantity as it comes: for a cart holding
  Pills with quantity 2, the body \<open>{name: 'Pills', quantity: -1}\<close> is answered 200 and
  leaves Pills in the cart with quantity -1 (and negative totals), while the client's
  guest path turns the same request into quantity 1.
\<close>

theorem put_cart_update_stores_negative_quantity:
  "quantities_ok [pills]
   \<and> fst (api verify1 env1 (store1(''u1'' \<mapsto> alice\<lparr>cart := [pills]\<rparr>)) (Some ''Bearer tok'')
            (CartUpdate ''Pills'' (- 1))) ''u1''
       = Some (alice\<lparr>cart := [pills\<lparr>quantity := - 1\<rparr>]\<rparr>)
   \<and> snd (api verify1 env1 (store1(''u1'' \<mapsto> alice\<lparr>cart := [pills]\<rparr>)) (Some ''Bearer tok'')
            (CartUpdate ''Pills'' (- 1)))
       = (200, CartBody [pills\<lparr>quantity := - 1\<rparr>]
                 \<lparr>subtotal = Finite (- 250), deliveryFee = Finite 50,
                    tax = Finite (- (25 / 2)), total = Finite (- (425 / 2))\<rparr>)
   \<and> \<not> quantities_ok [pills\<lparr>quantity := - 1\<rparr>]
   \<and> client_cart (fst (updateCartItemQuantity net ''Pills'' (- 1)
         (\<lparr>token = None, stored_user = None, cart_cache = None, client_cart = [pills],
           currentUser = None\<rparr>, w)))
       = [pills\<lparr>quantity := 1\<rparr>]"
  using negative_pills_totals
  by (simp add: api_def authenticateToken_def token_of_header_def verify1_def store1_def
      alice_def pills_def falsy_def str_def put_cart_update_def findIndex_def
      quantities_ok_def updateCartItemQuantity_def isLoggedIn_def cacheCart_def Let_def)

section \<open>Orders\<close>

lemma orders_handler:
  "orders (fst (handler e req u)) = orders u
   \<or> (\<exists>ord. orders (fst (handler e req u)) = orders u @ [ord])"
  by (cases req)
    (simp_all add: get_cart_def post_cart_add_def put_cart_update_def delete_cart_remove_def
      delete_cart_clear_def post_orders_def get_orders_def get_addresses_def post_addresses_def
      put_addresses_def delete_addresses_def Let_def split: option.splits)

lemma orders_kept_handler:
  assumes "take (length os) (orders u) = os"
  shows "take (length os) (orders (fst (handler e req u))) = os"
proof -
  have "length (take (length os) (orders u)) = length os"
    by (simp only: assms)
  then have "length os \<le> length (orders u)"
    by simp
  then show ?thesis
    using assms orders_handler [of e req u] by auto
qed

lemma orders_kept_run_api:
  assumes "store uid = Some u" and "take (length os) (orders u) = os"
  shows "\<exists>u'. run_api verify store reqs uid = Some u' \<and> take (length os) (orders u') = os"
  using assms
  by (intro run_api_invariant [where P = "\<lambda>v. take (length os) (orders v) = os"])
     (simp_all add: orders_kept_handler)

lemma api_post_orders:
  assumes "authenticateToken verify store h = Inr (uid, u)"
  shows "api verify e store h (CreateOrder body)
           = (store(uid \<mapsto> fst (post_orders e body u)), snd (post_orders e body u))"
  using assms by (simp add: api_def split: prod.splits)

lemma post_orders_created:
  assumes "snd (post_orders e body u) = (200, OrderBody ord)"
  shows "fst (post_orders e body u) = u\<lparr>orders := orders u @ [ord], cart := []\<rparr>"
    and "orderId ord = new_orderId e" and "items ord = cart u"
    and "order_total ord = total (calculateCartTotal (cart u))"
    and "deliveryAddress ord =
           (case b_deliveryAddress body of Some a \<Rightarrow> Some a | None \<Rightarrow> find isDefault (addresses u))"
    and "status ord = ''confirmed''" and "createdAt ord = now e"
  using assms by (auto simp add: post_orders_def Let_def split: if_splits)

text \<open>
  Claim C4. An order created by \<open>POST /api/orders\<close> holds the cart of that moment as its
  items and the address of the request (or the default address) as its delivery address,
  and no later request to any protected route changes it: after every sequence of
  requests the user's order list still starts with the orders it had, followed by the
  created order, all fields as they were stored.
\<close>

theorem created_order_never_changes:
  assumes "authenticateToken verify store h = Inr (uid, u)"
    and "snd (api verify e store h (CreateOrder body)) = (200, OrderBody ord)"
  shows "items ord = cart u
     \<and> deliveryAddress ord =
          (case b_deliveryAddress body of Some a \<Rightarrow> Some a | None \<Rightarrow> find isDefault (addresses u))
     \<and> (\<exists>u'. run_api verify (fst (api verify e store h (CreateOrder body))) reqs uid = Some u'
            \<and> take (Suc (length (orders u))) (orders u') = orders u @ [ord])"
proof -
  define u1 where "u1 = fst (post_orders e body u)"
  define store' where "store' = fst (api verify e store h (CreateOrder body))"
  have res: "snd (post_orders e body u) = (200, OrderBody ord)"
    using assms by (simp add: api_post_orders)
  have u1: "u1 = u\<lparr>orders := orders u @ [ord], cart := []\<rparr>"
    unfolding u1_def using res by (rule post_orders_created)
  have "store' uid = Some u1"
    unfolding store'_def u1_def using assms(1) by (simp add: api_post_orders)
  moreover have "take (length (orders u @ [ord])) (orders u1) = orders u @ [ord]"
    by (simp add: u1)
  ultimately have "\<exists>u'. run_api verify store' reqs uid = Some u'
      \<and> take (length (orders u @ [ord])) (orders u') = orders u @ [ord]"
    by (rule orders_kept_run_api)
  then show ?thesis
    using post_orders_created(3,5) [OF res] unfolding store'_def by simp
qed

theorem created_order_never_changes_witness:
  "authenticateToken verify1 store2 (Some ''Bearer tok'') = Inr (''u1'', shopper)
   \<and> snd (api verify1 env1 store2 (Some ''Bearer tok'') (CreateOrder cod))
       = (200, OrderBody first_order)
   \<and> items first_order = cart shopper
   \<and> deliveryAddress first_order = Some home_doc
   \<and> (\<exists>u'. run_api verify1 (fst (api verify1 env1 store2 (Some ''Bearer tok'') (CreateOrder cod)))
              later_requests ''u1'' = Some u'
          \<and> take (Suc (length (orders shopper))) (orders u') = orders shopper @ [first_order])
   \<and> map_option (\<lambda>v. (map name (cart v), addresses v))
        (run_api verify1 (fst (api verify1 env1 store2 (Some ''Bearer tok'') (CreateOrder cod)))
           later_requests ''u1'')
       = Some ([''Syrup''], [])"
proof -
  have a: "authenticateToken verify1 store2 (Some ''Bearer tok'') = Inr (''u1'', shopper)"
    by code_simp
  have r: "snd (api verify1 env1 store2 (Some ''Bearer tok'') (CreateOrder cod))
             = (200, OrderBody first_order)"
    using a pills_totals(2)
    by (simp add: api_post_orders post_orders_def Let_def first_order_def cod_def env1_def
        falsy_def str_def shopper_def home_doc_def)
  have d: "find isDefault (addresses shopper) = Some home_doc" and c: "b_deliveryAddress cod = None"
    by code_simp+
  have z: "toString 0 = ''0''"
    by code_simp
  have m: "map_option (\<lambda>v. (map name (cart v), addresses v))
        (run_api verify1 (fst (api verify1 env1 store2 (Some ''Bearer tok'') (CreateOrder cod)))
           later_requests ''u1'')
       = Some ([''Syrup''], [])"
    using z
    by (simp add: api_def authenticateToken_def token_of_header_def verify1_def store2_def
        falsy_def str_def later_requests_def post_orders_def shopper_def alice_def
        home_doc_def cod_def env1_def env2_def post_cart_add_def findIndex_def
        put_addresses_def only_default_def assign_def clear_defaults_def delete_addresses_def
        get_orders_def put_cart_update_def Let_def)
  show ?thesis
    using created_order_never_changes [OF a r, of later_requests] a r d c m by simp
qed

section \<open>Cart routes and order creation\<close>

lemma api_handler:
  assumes "authenticateToken verify store h = Inr (uid, u)"
  shows "api verify e store h req
           = (store(uid \<mapsto> fst (handler e req u)), snd (handler e req u))"
  using assms by (simp add: api_def split: prod.splits)

lemma authenticateToken_other_store:
  assumes "authenticateToken verify store h = Inr (uid, u)" and "store' uid = Some u'"
  shows "authenticateToken verify store' h = Inr (uid, u')"
  using assms
  by (auto simp add: authenticateToken_def Let_def split: if_splits option.splits)

lemma findIndex_from_None:
  "findIndex_from k (\<lambda>x idx. P x) xs = None \<longleftrightarrow> (\<forall>x\<in>set xs. \<not> P x)"
  by (induction xs arbitrary: k) simp_all

lemma findIndex_None: "findIndex (\<lambda>x idx. P x) xs = None \<longleftrightarrow> (\<forall>x\<in>set xs. \<not> P x)"
  by (simp add: findIndex_def findIndex_from_None)

text \<open>
  Claim C8. \<open>DELETE /api/cart/clear\<close>, for an authenticated user, stores the user's
  document with an empty cart (everything else as it was) and answers 200 with an empty
  cart and the totals \<open>{subtotal: 0, deliveryFee: 0, tax: 0, total: 0}\<close>.
\<close>

theorem clear_cart_empties_and_zero_totals:
  assumes "authenticateToken verify store h = Inr (uid, u)"
  shows "fst (api verify e store h CartClear) uid = Some (u\<lparr>cart := []\<rparr>)
     \<and> snd (api verify e store h CartClear)
         = (200, CartBody []
             \<lparr>subtotal = Finite 0, deliveryFee = Finite 0, tax = Finite 0, total = Finite 0\<rparr>)"
  using assms by (simp add: api_handler delete_cart_clear_def)

theorem clear_cart_empties_and_zero_totals_witness:
  "authenticateToken verify1 store2 (Some ''Bearer tok'') = Inr (''u1'', shopper)
   \<and> cart shopper = [pills]
   \<and> fst (api verify1 env1 store2 (Some ''Bearer tok'') CartClear) ''u1''
       = Some (shopper\<lparr>cart := []\<rparr>)
   \<and> snd (api verify1 env1 store2 (Some ''Bearer tok'') CartClear)
       = (200, CartBody []
             \<lparr>subtotal = Finite 0, deliveryFee = Finite 0, tax = Finite 0, total = Finite 0\<rparr>)"
proof -
  have a: "authenticateToken verify1 store2 (Some ''Bearer tok'') = Inr (''u1'', shopper)"
    by code_simp
  have c: "cart shopper = [pills]"
    by (simp add: shopper_def)
  show ?thesis
    using clear_cart_empties_and_zero_totals [OF a, of env1] a c by simp
qed

text \<open>
  Claim C9. \<open>POST /api/orders\<close> for an authenticated user with a non-empty cart answers
  200 with the order and stores, in the one save, the order and an empty cart; the same
  request sent again right afterwards is answered 400 with the error \<open>Cart is empty\<close>, and
  changes nothing.
\<close>

theorem second_order_fails_cart_empty:
  assumes "authenticateToken verify store h = Inr (uid, u)" and "cart u \<noteq> []"
  shows "\<exists>ord u1.
           api verify e store h (CreateOrder body) = (store(uid \<mapsto> u1), (200, OrderBody ord))
         \<and> u1 = u\<lparr>orders := orders u @ [ord], cart := []\<rparr>
         \<and> cart u1 = []
         \<and> api verify e' (store(uid \<mapsto> u1)) h (CreateOrder body')
             = (store(uid \<mapsto> u1), (400, ErrorBody ''Cart is empty''))"
proof -
  obtain ord where ord: "snd (post_orders e body u) = (200, OrderBody ord)"
    using assms(2) by (simp add: post_orders_def Let_def)
  define u1 where "u1 = u\<lparr>orders := orders u @ [ord], cart := []\<rparr>"
  have u1: "fst (post_orders e body u) = u1"
    unfolding u1_def using ord by (rule post_orders_created)
  have first: "api verify e store h (CreateOrder body) = (store(uid \<mapsto> u1), (200, OrderBody ord))"
    using assms(1) ord u1 by (simp add: api_handler)
  have "authenticateToken verify (store(uid \<mapsto> u1)) h = Inr (uid, u1)"
    using assms(1) by (rule authenticateToken_other_store) simp
  then have "api verify e' (store(uid \<mapsto> u1)) h (CreateOrder body')
             = (store(uid \<mapsto> u1), (400, ErrorBody ''Cart is empty''))"
    by (simp add: api_handler post_orders_def u1_def)
  then show ?thesis
    using first u1_def by auto
qed

theorem second_order_fails_cart_empty_witness:
  "authenticateToken verify1 store2 (Some ''Bearer tok'') = Inr (''u1'', shopper)
   \<and> cart shopper \<noteq> []
   \<and> (\<exists>ord u1.
           api verify1 env1 store2 (Some ''Bearer tok'') (CreateOrder cod)
             = (store2(''u1'' \<mapsto> u1), (200, OrderBody ord))
         \<and> u1 = shopper\<lparr>orders := orders shopper @ [ord], cart := []\<rparr>
         \<and> cart u1 = []
         \<and> api verify1 env2 (store2(''u1'' \<mapsto> u1)) (Some ''Bearer tok'') (CreateOrder cod)
             = (store2(''u1'' \<mapsto> u1), (400, ErrorBody ''Cart is empty'')))
   \<and> snd (api verify1 env2 (fst (api verify1 env1 store2 (Some ''Bearer tok'') (CreateOrder cod)))
            (Some ''Bearer tok'') (CreateOrder cod))
       = (400, ErrorBody ''Cart is empty'')"
proof -
  have a: "authenticateToken verify1 store2 (Some ''Bearer tok'') = Inr (''u1'', shopper)"
    by code_simp
  have c: "cart shopper \<noteq> []"
    by (simp add: shopper_def)
  from second_order_fails_cart_empty [OF a c, of env1 cod env2 cod]
  obtain ord u1 where
    f: "api verify1 env1 store2 (Some ''Bearer tok'') (CreateOrder cod)
          = (store2(''u1'' \<mapsto> u1), (200, OrderBody ord))"
    and g: "u1 = shopper\<lparr>orders := orders shopper @ [ord], cart := []\<rparr>" "cart u1 = []"
    and h: "api verify1 env2 (store2(''u1'' \<mapsto> u1)) (Some ''Bearer tok'') (CreateOrder cod)
          = (store2(''u1'' \<mapsto> u1), (400, ErrorBody ''Cart is empty''))"
    by blast
  have s: "snd (api verify1 env2 (fst (api verify1 env1 store2 (Some ''Bearer tok'') (CreateOrder cod)))
            (Some ''Bearer tok'') (CreateOrder cod))
       = (400, ErrorBody ''Cart is empty'')"
    using f h by simp
  show ?thesis
    using a c f g h s by blast
qed

text \<open>
  Claim C10. \<open>PUT /api/cart/update\<close> with quantity 0 answers 200 and removes every item
  of that name from the cart (no item of that name is left, the others are untouched);
  with a name that is not in the cart it answers 200, for any quantity, and leaves the
  user's document as it was.
\<close>

theorem cart_update_zero_removes_absent_unchanged:
  "fst (put_cart_update n 0 u) = u\<lparr>cart := filter (\<lambda>item. name item \<noteq> n) (cart u)\<rparr>
   \<and> list_all (\<lambda>item. name item \<noteq> n) (cart (fst (put_cart_update n 0 u)))
   \<and> fst (snd (put_cart_update n 0 u)) = 200
   \<and> (list_all (\<lambda>item. name item \<noteq> n) (cart u) \<longrightarrow>
        put_cart_update n q u = (u, (200, CartBody (cart u) (calculateCartTotal (cart u)))))
   \<and> (authenticateToken verify store h = Inr (uid, u) \<longrightarrow>
        api verify e store h (CartUpdate n q)
          = (store(uid \<mapsto> fst (put_cart_update n q u)), snd (put_cart_update n q u)))"
proof -
  have absent: "put_cart_update n q u = (u, (200, CartBody (cart u) (calculateCartTotal (cart u))))"
    if "list_all (\<lambda>item. name item \<noteq> n) (cart u)"
  proof -
    have "findIndex (\<lambda>item idx. name item = n) (cart u) = None"
      using that by (simp add: findIndex_None list_all_iff)
    moreover have "filter (\<lambda>item. name item \<noteq> n) (cart u) = cart u"
      using that by (simp add: list_all_iff)
    ultimately show ?thesis
      by (simp add: put_cart_update_def Let_def)
  qed
  show ?thesis
    using absent by (simp add: put_cart_update_def Let_def list_all_iff api_handler)
qed

theorem cart_update_zero_removes_absent_unchanged_witness:
  "cart (fst (put_cart_update ''Pills'' 0 shopper)) = []
   \<and> fst (snd (put_cart_update ''Pills'' 0 shopper)) = 200
   \<and> list_all (\<lambda>item. name item \<noteq> ''Syrup'') (cart shopper)
   \<and> put_cart_update ''Syrup'' 4 shopper
       = (shopper, (200, CartBody [pills]
                      \<lparr>subtotal = Finite 500, deliveryFee = Finite 50, tax = Finite 25,
                         total = Finite 575\<rparr>))
   \<and> authenticateToken verify1 store2 (Some ''Bearer tok'') = Inr (''u1'', shopper)
   \<and> fst (api verify1 env1 store2 (Some ''Bearer tok'') (CartUpdate ''Syrup'' 4)) ''u1''
       = Some shopper"
proof -
  have a: "authenticateToken verify1 store2 (Some ''Bearer tok'') = Inr (''u1'', shopper)"
    by code_simp
  have l: "list_all (\<lambda>item. name item \<noteq> ''Syrup'') (cart shopper)"
    by code_simp
  have c: "cart shopper = [pills]"
    and f: "filter (\<lambda>item. name item \<noteq> ''Pills'') (cart shopper) = []"
    by code_simp+
  have t: "calculateCartTotal (cart shopper)
             = \<lparr>subtotal = Finite 500, deliveryFee = Finite 50, tax = Finite 25,
                total = Finite 575\<rparr>"
    unfolding c by (rule pills_totals(2))
  show ?thesis
    using cart_update_zero_removes_absent_unchanged
            [of "''Pills''" shopper 4 verify1 store2 "Some ''Bearer tok''" "''u1''" env1]
          cart_update_zero_removes_absent_unchanged
            [of "''Syrup''" shopper 4 verify1 store2 "Some ''Bearer tok''" "''u1''" env1]
          a l t c f
    by simp
qed

section \<open>Authentication failures\<close>

lemma split_space_no_space: "CHR '' '' \<notin> set t \<Longrightarrow> split_space t = [t]"
  by (induction t) auto

lemma token_of_bearer:
  assumes "CHR '' '' \<notin> set t"
  shows "token_of_header (Some (''Bearer '' @ t)) = Some t"
  using assms by (simp add: token_of_header_def split_space_no_space)

lemma api_no_token:
  assumes "falsy (token_of_header h)"
  shows "api verify e store h req = (store, (401, ErrorBody ''Authentication required''))"
  using assms by (simp add: api_def authenticateToken_def)

lemma api_bad_token:
  assumes "\<not> falsy (token_of_header h)" and "verify (str (token_of_header h)) = None"
  shows "api verify e store h req = (store, (403, ErrorBody ''Invalid or expired token''))"
  using assms by (simp add: api_def authenticateToken_def)

lemma apiCall_unauthorized:
  assumes "net w (authorization st) ep = (w', Response s True (Some data))"
    and "s = 401 \<or> s = 403"
  shows "apiCall net ep (st, w) = ((logout st, w'), ReturnedUndefined)"
  using assms by (auto simp add: apiCall_def)

lemma logout_removes:
  "token (logout st) = None" "stored_user (logout st) = None" "cart_cache (logout st) = None"
  by (simp_all add: logout_def)

lemma apiCall_server_rejected:
  assumes "falsy (token st)
           \<or> (CHR '' '' \<notin> set (str (token st)) \<and> verify (str (token st)) = None)"
  shows "apiCall (server_net verify e public) (Api req) (st, store)
           = ((logout st, store), ReturnedUndefined)"
proof (cases "falsy (token st)")
  case True
  then have "authorization st = None" by (simp add: authorization_def)
  then have "server_net verify e public store (authorization st) (Api req)
               = (store, Response 401 True (Some (ErrorBody ''Authentication required'')))"
    by (simp add: server_net_def api_no_token token_of_header_def falsy_def deliver_def)
  then show ?thesis
    by (rule apiCall_unauthorized) simp
next
  case False
  then have h: "authorization st = Some (''Bearer '' @ str (token st))"
    by (simp add: authorization_def)
  have t: "token_of_header (authorization st) = Some (str (token st))"
    unfolding h using assms False by (intro token_of_bearer) simp
  have "\<not> falsy (token_of_header (authorization st))"
    using False t by (cases "token st") (simp_all add: falsy_def str_def)
  moreover have "verify (str (token_of_header (authorization st))) = None"
    using assms False t by (simp add: str_def)
  ultimately have "api verify e store (authorization st) req
                     = (store, (403, ErrorBody ''Invalid or expired token''))"
    by (rule api_bad_token)
  then have "server_net verify e public store (authorization st) (Api req)
               = (store, Response 403 True (Some (ErrorBody ''Invalid or expired token'')))"
    by (simp add: server_net_def deliver_def)
  then show ?thesis
    by (rule apiCall_unauthorized) simp
qed

text \<open>
  Claim C6. When a call receives a JSON response with status 401 or 403, as the
  authentication middleware sends them, \<open>apiCall\<close> logs out: the stored token, user and
  cart cache are removed. On the server every protected route answers 401 when the
  header carries no token, and 403 when the token does not verify (invalid or expired);
  the store is left as it was. Put together: a client without a token, or with a token
  that does not verify, is logged out by its first call to a protected route.
\<close>

theorem unauthorized_response_forces_logout:
  "(net w (authorization st) ep = (w', Response s True (Some data)) \<and> (s = 401 \<or> s = 403) \<longrightarrow>
      apiCall net ep (st, w) = ((logout st, w'), ReturnedUndefined)
      \<and> token (logout st) = None \<and> stored_user (logout st) = None
      \<and> cart_cache (logout st) = None)
   \<and> token_of_header None = None
   \<and> (falsy (token_of_header h) \<longrightarrow>
        api verify e store h req = (store, (401, ErrorBody ''Authentication required'')))
   \<and> (\<not> falsy (token_of_header h) \<and> verify (str (token_of_header h)) = None \<longrightarrow>
        api verify e store h req = (store, (403, ErrorBody ''Invalid or expired token'')))
   \<and> (CHR '' '' \<notin> set t \<longrightarrow> token_of_header (Some (''Bearer '' @ t)) = Some t)
   \<and> (falsy (token st0)
        \<or> (CHR '' '' \<notin> set (str (token st0)) \<and> verify (str (token st0)) = None) \<longrightarrow>
        apiCall (server_net verify e public) (Api req) (st0, store)
          = ((logout st0, store), ReturnedUndefined))"
  using apiCall_unauthorized [of net w st ep w' s data] api_no_token [of h verify e store req]
    api_bad_token [of h verify e store req] token_of_bearer [of t]
    apiCall_server_rejected [of st0 verify e public req store]
  by (simp add: logout_removes token_of_header_def)

theorem unauthorized_response_forces_logout_witness:
  "\<not> falsy (token_of_header (Some ''Bearer old'')) \<and> verify1 ''old'' = None
   \<and> api verify1 env1 store2 (Some ''Bearer old'') GetCart
       = (store2, (403, ErrorBody ''Invalid or expired token''))
   \<and> falsy (token_of_header (Some ''Bearer''))
   \<and> api verify1 env1 store2 (Some ''Bearer'') GetCart
       = (store2, (401, ErrorBody ''Authentication required''))
   \<and> server_net verify1 env1 public1 store2 (authorization stale) (Api GetCart)
       = (store2, Response 403 True (Some (ErrorBody ''Invalid or expired token'')))
   \<and> apiCall (server_net verify1 env1 public1) (Api GetCart) (stale, store2)
       = ((logout stale, store2), ReturnedUndefined)
   \<and> logout stale
       = \<lparr>token = None, stored_user = None, cart_cache = None, client_cart = [pills],
          currentUser = Some alice_info\<rparr>"
proof -
  have t: "token_of_header (Some ''Bearer old'') = Some ''old''"
    and f: "falsy (token_of_header (Some ''Bearer''))"
    and v: "verify1 ''old'' = None"
    and l: "logout stale
       = \<lparr>token = None, stored_user = None, cart_cache = None, client_cart = [pills],
          currentUser = Some alice_info\<rparr>"
    and a: "authorization stale = Some ''Bearer old''"
    by code_simp+
  note bad = unauthorized_response_forces_logout
      [of "server_net verify1 env1 public1" store2 stale "Api GetCart" store2 403
          "ErrorBody ''Invalid or expired token''" "Some ''Bearer old''" verify1 env1 store2
          GetCart "''old''" stale public1]
  note none = unauthorized_response_forces_logout
      [of "server_net verify1 env1 public1" store2 stale "Api GetCart" store2 403
          "ErrorBody ''Invalid or expired token''" "Some ''Bearer''" verify1 env1 store2
          GetCart "''old''" stale public1]
  have b: "api verify1 env1 store2 (Some ''Bearer old'') GetCart
       = (store2, (403, ErrorBody ''Invalid or expired token''))"
    using bad t v by (simp add: falsy_def str_def)
  have n: "api verify1 env1 store2 (Some ''Bearer'') GetCart
       = (store2, (401, ErrorBody ''Authentication required''))"
    using none f by simp
  have s: "server_net verify1 env1 public1 store2 (authorization stale) (Api GetCart)
       = (store2, Response 403 True (Some (ErrorBody ''Invalid or expired token'')))"
    using a b by (simp add: server_net_def deliver_def)
  have c: "apiCall (server_net verify1 env1 public1) (Api GetCart) (stale, store2)
       = ((logout stale, store2), ReturnedUndefined)"
    using bad s by simp
  show ?thesis
    using t f v l b n s c by (simp add: falsy_def)
qed

section \<open>Login and the guest cart\<close>

lemma apiCall_ok:
  assumes "net w (authorization st) ep = (w', Response s True (Some data))"
    and "200 \<le> s" and "s \<le> 299"
  shows "apiCall net ep (st, w) = ((st, w'), Returned data)"
  using assms by (simp add: apiCall_def)

lemma loadCart_logged_in:
  assumes "isLoggedIn st"
    and "net w (authorization st) (Api GetCart) = (w', Response s True (Some (CartBody c t)))"
    and "200 \<le> s" and "s \<le> 299"
  shows "loadCart net (st, w) = ((st\<lparr>client_cart := c, cart_cache := Some c\<rparr>, w'), c)"
  using assms apiCall_ok [of net w st "Api GetCart" w' s "CartBody c t"]
  by (simp add: loadCart_def cart_of_def cacheCart_def)

lemma loadCart_falls_back_to_cache:
  assumes "isLoggedIn st" and "net w (authorization st) (Api GetCart) = (w', NetworkError)"
  shows "loadCart net (st, w) = ((st\<lparr>client_cart := getCachedCart st\<rparr>, w'), getCachedCart st)"
  using assms by (simp add: loadCart_def apiCall_def)

lemma handleLogin_cart:
  assumes "net w (authorization st) (Login mail pw)
             = (w1, Response s1 True (Some (AuthBody tok usr)))"
    and "200 \<le> s1" and "s1 \<le> 299" and "tok \<noteq> []"
    and "net w1 (Some (''Bearer '' @ tok)) (Api GetCart)
           = (w2, Response s2 True (Some (CartBody c t)))"
    and "200 \<le> s2" and "s2 \<le> 299"
  shows "handleLogin net mail pw (st, w)
           = ((st\<lparr>token := Some tok, stored_user := Some usr, currentUser := Some usr,
                  client_cart := c, cart_cache := Some c\<rparr>, w2), Returned True)"
proof -
  define st2 where "st2 = st\<lparr>token := Some tok, stored_user := Some usr, currentUser := Some usr\<rparr>"
  have logged: "isLoggedIn st2"
    using assms(4) by (simp add: st2_def isLoggedIn_def falsy_def)
  have "authorization st2 = Some (''Bearer '' @ tok)"
    using assms(4) by (simp add: st2_def authorization_def falsy_def str_def)
  then have "net w1 (authorization st2) (Api GetCart)
               = (w2, Response s2 True (Some (CartBody c t)))"
    using assms(5) by simp
  then have "loadCart net (st2, w1) = ((st2\<lparr>client_cart := c, cart_cache := Some c\<rparr>, w2), c)"
    using logged assms(6,7) by (intro loadCart_logged_in)
  then show ?thesis
    using assms(1,2,3) apiCall_ok [of net w st "Login mail pw" w1 s1 "AuthBody tok usr"]
    by (simp add: handleLogin_def st2_def)
qed

lemma server_net_get_cart:
  assumes "CHR '' '' \<notin> set tok" and "tok \<noteq> []" and "verify tok = Some uid"
    and "store uid = Some u"
  shows "server_net verify e public store (Some (''Bearer '' @ tok)) (Api GetCart)
           = (store, Response 200 True (Some (CartBody (cart u) (calculateCartTotal (cart u)))))"
proof -
  have "token_of_header (Some (''Bearer '' @ tok)) = Some tok"
    using assms(1) by (rule token_of_bearer)
  then have "authenticateToken verify store (Some (''Bearer '' @ tok)) = Inr (uid, u)"
    using assms by (simp add: authenticateToken_def falsy_def str_def)
  moreover have "store(uid \<mapsto> u) = store"
    using assms(4) by (rule map_upd_triv)
  ultimately show ?thesis
    by (simp add: server_net_def api_handler get_cart_def deliver_def)
qed

text \<open>
  Claim C5. When the login call and the following \<open>GET /api/cart\<close> both return,
  \<open>handleLogin\<close> returns \<open>true\<close> and leaves the variable \<open>cart\<close> and the cart cache equal to
  the cart of that answer, whatever the guest's cart and cache held before: nothing of
  them is merged. Against this server, whose login route answers with a token that
  verifies for the user, that cart is the cart of the user's stored document.
\<close>

theorem login_replaces_guest_cart:
  "(net w (authorization st) (Login mail pw) = (w1, Response s1 True (Some (AuthBody tok usr)))
      \<and> 200 \<le> s1 \<and> s1 \<le> 299 \<and> tok \<noteq> []
      \<and> net w1 (Some (''Bearer '' @ tok)) (Api GetCart)
           = (w2, Response s2 True (Some (CartBody c t)))
      \<and> 200 \<le> s2 \<and> s2 \<le> 299 \<longrightarrow>
    handleLogin net mail pw (st, w)
      = ((st\<lparr>token := Some tok, stored_user := Some usr, currentUser := Some usr,
             client_cart := c, cart_cache := Some c\<rparr>, w2), Returned True))
   \<and> (public store (Login mail pw) = (store', (s1, AuthBody tok usr))
      \<and> 200 \<le> s1 \<and> s1 \<le> 299 \<and> tok \<noteq> [] \<and> CHR '' '' \<notin> set tok
      \<and> verify tok = Some uid \<and> store' uid = Some u \<longrightarrow>
    handleLogin (server_net verify e public) mail pw (st, store)
      = ((st\<lparr>token := Some tok, stored_user := Some usr, currentUser := Some usr,
             client_cart := cart u, cart_cache := Some (cart u)\<rparr>, store'), Returned True))"
proof -
  have "handleLogin (server_net verify e public) mail pw (st, store)
      = ((st\<lparr>token := Some tok, stored_user := Some usr, currentUser := Some usr,
             client_cart := cart u, cart_cache := Some (cart u)\<rparr>, store'), Returned True)"
    if p: "public store (Login mail pw) = (store', (s1, AuthBody tok usr))"
      and s: "200 \<le> s1" "s1 \<le> 299" and t: "tok \<noteq> []" "CHR '' '' \<notin> set tok"
      and v: "verify tok = Some uid" "store' uid = Some u"
  proof (rule handleLogin_cart)
    show "server_net verify e public store (authorization st) (Login mail pw)
            = (store', Response s1 True (Some (AuthBody tok usr)))"
      using p by (simp add: server_net_def deliver_def)
    show "server_net verify e public store' (Some (''Bearer '' @ tok)) (Api GetCart)
            = (store', Response 200 True (Some (CartBody (cart u) (calculateCartTotal (cart u)))))"
      using t v by (intro server_net_get_cart)
  qed (use s t in simp_all)
  then show ?thesis
    using handleLogin_cart [of net w st mail pw w1 s1 tok usr w2 s2 c t] by blast
qed

theorem login_replaces_guest_cart_witness:
  "public1 store1 (Login ''alice@example.com'' ''secret'') = (store1, (200, AuthBody ''tok'' alice_info))
   \<and> verify1 ''tok'' = Some ''u1'' \<and> store1 ''u1'' = Some alice
   \<and> client_cart guest = [pills] \<and> cart_cache guest = Some [pills] \<and> cart alice = []
   \<and> handleLogin (server_net verify1 env1 public1) ''alice@example.com'' ''secret'' (guest, store1)
       = ((\<lparr>token = Some ''tok'', stored_user = Some alice_info, cart_cache = Some [],
            client_cart = [], currentUser = Some alice_info\<rparr>, store1), Returned True)"
proof -
  have p: "public1 store1 (Login ''alice@example.com'' ''secret'')
             = (store1, (200, AuthBody ''tok'' alice_info))"
    by (simp add: public1_def)
  have v: "verify1 ''tok'' = Some ''u1''" and s: "store1 ''u1'' = Some alice"
    and g: "client_cart guest = [pills]" "cart_cache guest = Some [pills]" "cart alice = []"
    by (simp_all add: verify1_def store1_def guest_def alice_def)
  have n: "CHR '' '' \<notin> set ''tok''" "''tok'' \<noteq> []"
    by simp_all
  have "handleLogin (server_net verify1 env1 public1) ''alice@example.com'' ''secret'' (guest, store1)
      = ((guest\<lparr>token := Some ''tok'', stored_user := Some alice_info,
             currentUser := Some alice_info,
             client_cart := cart alice, cart_cache := Some (cart alice)\<rparr>, store1), Returned True)"
    using login_replaces_guest_cart
            [of "server_net verify1 env1 public1" store1 guest "''alice@example.com''" "''secret''"
                store1 200 "''tok''" alice_info store1 200 "[]" "calculateCartTotal []"
                public1 store1 store1 verify1 "''u1''" alice env1]
          p v s n
    by simp
  then show ?thesis
    using p v s g by (simp add: guest_def)
qed

section \<open>Address validation\<close>

lemma validate_address_blank:
  assumes "blank (b_name d) \<or> blank (b_phone d) \<or> blank (b_address d)
           \<or> blank (b_city d) \<or> blank (b_state d) \<or> blank (b_pincode d)"
  shows "validate_address d \<noteq> None"
  using assms by (auto simp add: validate_address_def)

lemma validate_address_digits:
  assumes "\<not> digits_exactly 10 (strip_spaces (str (b_phone d)))
           \<or> \<not> digits_exactly 6 (strip_spaces (str (b_pincode d)))"
  shows "validate_address d \<noteq> None"
  using assms by (auto simp add: validate_address_def)

lemma addAddress_invalid:
  assumes "validate_address d \<noteq> None"
  shows "addAddress net d (st, w) = ((st, w), None)"
  using assms by (simp add: addAddress_def)

lemma post_addresses_400:
  "fst (snd (post_addresses e body u)) = 400 \<longleftrightarrow>
     falsy (b_name body) \<or> falsy (b_phone body) \<or> falsy (b_address body)
     \<or> falsy (b_city body) \<or> falsy (b_state body) \<or> falsy (b_pincode body)"
  by (simp add: post_addresses_def Let_def)

lemma post_addresses_rejected:
  assumes "fst (snd (post_addresses e body u)) = 400"
  shows "post_addresses e body u = (u, (400, ErrorBody ''All address fields required''))"
  using assms by (simp add: post_addresses_def Let_def split: if_splits)

lemma post_addresses_stored:
  assumes "fst (snd (post_addresses e body u)) \<noteq> 400"
  shows "fst (snd (post_addresses e body u)) = 200
         \<and> length (addresses (fst (post_addresses e body u))) = Suc (length (addresses u))
         \<and> phone (last (addresses (fst (post_addresses e body u)))) = trim (str (b_phone body))
         \<and> pincode (last (addresses (fst (post_addresses e body u))))
             = trim (str (b_pincode body))"
  using assms
  by (simp add: post_addresses_def Let_def length_clear_defaults subdoc_def split: if_splits)

text \<open>
  Claim C7 fails on the server. The client tests the phone and the pincode and returns
  \<open>null\<close> without a request when they are not 10 and 6 digits, but
  \<open>POST /api/addresses\<close> only tests that the six fields are present: sent to the server
  with a valid token, an address with the phone \<open>123\<close> and the pincode \<open>1\<close> is answered
  200 and stored as the user's address, where the claim has it rejected with 400 and
  the address list unchanged. The client's \<open>addAddress\<close> rejects the same data.
\<close>

theorem post_addresses_stores_invalid_phone:
  "\<not> digits_exactly 10 ''123'' \<and> \<not> digits_exactly 6 ''1''
   \<and> addresses alice = []
   \<and> snd (api verify1 env1 store1 (Some ''Bearer tok'') (AddAddress short_phone))
       = (200, AddressBody \<lparr>addr_name = ''Alice'', phone = ''123'', address = ''1 Main St'',
                 city = ''Pune'', state = ''MH'', pincode = ''1'', isDefault = True\<rparr>)
   \<and> map_option (\<lambda>v. map (\<lambda>addr. (phone addr, pincode addr)) (addresses v))
        (fst (api verify1 env1 store1 (Some ''Bearer tok'') (AddAddress short_phone)) ''u1'')
       = Some [(''123'', ''1'')]
   \<and> validate_address short_phone = Some ''Phone must be 10 digits''
   \<and> addAddress net short_phone (member, w) = ((member, w), None)"
proof -
  have "\<not> digits_exactly 10 ''123''" and "\<not> digits_exactly 6 ''1''"
    and "addresses alice = []"
    and "snd (api verify1 env1 store1 (Some ''Bearer tok'') (AddAddress short_phone))
       = (200, AddressBody \<lparr>addr_name = ''Alice'', phone = ''123'', address = ''1 Main St'',
                 city = ''Pune'', state = ''MH'', pincode = ''1'', isDefault = True\<rparr>)"
    and "map_option (\<lambda>v. map (\<lambda>addr. (phone addr, pincode addr)) (addresses v))
        (fst (api verify1 env1 store1 (Some ''Bearer tok'') (AddAddress short_phone)) ''u1'')
       = Some [(''123'', ''1'')]"
    and v: "validate_address short_phone = Some ''Phone must be 10 digits''"
    by code_simp+
  moreover have "addAddress net short_phone (member, w) = ((member, w), None)"
    using v by (intro addAddress_invalid) simp
  ultimately show ?thesis
    by blast
qed

end
